theory Spec2Isabelle
  imports Complex_Main "HOL-Library.Log_Nat"
begin

section \<open>Parsed JSON as the Python code sees it\<close>

text \<open>
  \<open>response.json()\<close> hands \<open>analyze_property_data\<close> a tree of Python values: \<open>None\<close>,
  \<open>bool\<close>, \<open>int\<close>, \<open>float\<close>, \<open>str\<close>, \<open>list\<close> and \<open>dict\<close>. A \<open>dict\<close> is an association
  list read with \<open>map_of\<close>. Python's \<open>int\<close> is unbounded. A \<open>float\<close> is an IEEE 754 double:
  a finite one is the rational number it denotes (one of those that the rounding \<open>fl\<close>
  below leaves unchanged), and the parser also yields the two infinities (for
  \<open>Infinity\<close>, or a literal such as \<open>1e400\<close>) and \<open>NaN\<close>. The sign of a zero is not kept.
\<close>

datatype pyfloat = Finite rat | PosInf | NegInf | NaN

datatype json =
    JNull
  | JBool bool
  | JInt int
  | JFloat pyfloat
  | JStr string
  | JArr "json list"
  | JObj "(string \<times> json) list"

datatype py_error = AttributeError | TypeError | OverflowError | ValueError | ZeroDivisionError

text \<open>Sequencing of statements that may raise: the first exception ends the run.\<close>

definition py_bind :: "'e + 'a \<Rightarrow> ('a \<Rightarrow> 'e + 'b) \<Rightarrow> 'e + 'b" where
  "py_bind m f = (case m of Inl e \<Rightarrow> Inl e | Inr x \<Rightarrow> f x)"

text \<open>\<open>obj.get(key, default)\<close>: only a \<open>dict\<close> has the method.\<close>

definition py_get :: "json \<Rightarrow> string \<Rightarrow> json \<Rightarrow> py_error + json" where
  "py_get obj key dflt =
     (case obj of
        JObj kvs \<Rightarrow> Inr (case map_of kvs key of None \<Rightarrow> dflt | Some v \<Rightarrow> v)
      | _ \<Rightarrow> Inl AttributeError)"

text \<open>\<open>len(x)\<close>: defined on \<open>list\<close>, \<open>dict\<close> and \<open>str\<close>.\<close>

definition py_len :: "json \<Rightarrow> py_error + nat" where
  "py_len x =
     (case x of
        JArr xs \<Rightarrow> Inr (length xs)
      | JObj kvs \<Rightarrow> Inr (length kvs)
      | JStr s \<Rightarrow> Inr (length s)
      | _ \<Rightarrow> Inl TypeError)"

text \<open>Truth value of an object in \<open>if x\<close> and \<open>not x\<close>; \<open>NaN\<close> and the infinities are true.\<close>

fun truthy :: "json \<Rightarrow> bool" where
  "truthy JNull = False"
| "truthy (JBool b) = b"
| "truthy (JInt i) = (i \<noteq> 0)"
| "truthy (JFloat f) = (f \<noteq> Finite 0)"
| "truthy (JStr s) = (s \<noteq> [])"
| "truthy (JArr xs) = (xs \<noteq> [])"
| "truthy (JObj kvs) = (kvs \<noteq> [])"

subsection \<open>Numbers\<close>

text \<open>
  The number an object stands for in \<open>+\<close>, \<open>/\<close> and \<open>>\<close> with a number; \<open>bool\<close> is a
  subclass of \<open>int\<close>. Every other object makes these operators raise \<open>TypeError\<close>.
\<close>

datatype num = PyInt int | PyFloat pyfloat

fun num_val :: "json \<Rightarrow> num option" where
  "num_val (JInt i) = Some (PyInt i)"
| "num_val (JFloat f) = Some (PyFloat f)"
| "num_val (JBool b) = Some (PyInt (if b then 1 else 0))"
| "num_val _ = None"

text \<open>\<open>round(x)\<close> of a finite number: the nearest integer, a tie going to the even neighbour.\<close>

definition py_round :: "rat \<Rightarrow> int" where
  "py_round x =
     (if x - of_int \<lfloor>x\<rfloor> < 1 / 2 then \<lfloor>x\<rfloor>
      else if 1 / 2 < x - of_int \<lfloor>x\<rfloor> then \<lfloor>x\<rfloor> + 1
      else if even \<lfloor>x\<rfloor> then \<lfloor>x\<rfloor> else \<lfloor>x\<rfloor> + 1)"

text \<open>
  Rounding of a real result to a double, to nearest and ties to even. \<open>ilog2 x\<close> is the
  binary exponent of \<open>x\<close>, \<open>fl_exp x\<close> the exponent of the last place of the 53-bit
  significand (not below that of the subnormal numbers), and \<open>fl x\<close> the multiple of
  \<open>2 powi fl_exp x\<close> nearest to \<open>x\<close>. A result beyond the largest double becomes an
  infinity.
\<close>

definition ilog2 :: "rat \<Rightarrow> int" where
  "ilog2 x =
     (let d = bitlen (fst (quotient_of \<bar>x\<bar>)) - bitlen (snd (quotient_of \<bar>x\<bar>))
      in if 2 powi d \<le> \<bar>x\<bar> then d else d - 1)"

definition fl_exp :: "rat \<Rightarrow> int" where
  "fl_exp x = max (ilog2 x - 52) (- 1074)"

definition fl :: "rat \<Rightarrow> rat" where
  "fl x = (if x = 0 then 0 else of_int (py_round (x / 2 powi fl_exp x)) * 2 powi fl_exp x)"

definition max_double :: rat where
  "max_double = (2 ^ 53 - 1) * 2 ^ 971"

definition to_double :: "rat \<Rightarrow> pyfloat" where
  "to_double x =
     (if max_double < fl x then PosInf
      else if fl x < - max_double then NegInf
      else Finite (fl x))"

text \<open>\<open>float(i)\<close>, as the operators apply it to an \<open>int\<close> operand next to a \<open>float\<close>.\<close>

definition int_to_float :: "int \<Rightarrow> py_error + pyfloat" where
  "int_to_float i =
     (case to_double (of_int i) of Finite x \<Rightarrow> Inr (Finite x) | _ \<Rightarrow> Inl OverflowError)"

text \<open>The IEEE operations on doubles.\<close>

fun float_add :: "pyfloat \<Rightarrow> pyfloat \<Rightarrow> pyfloat" where
  "float_add (Finite a) (Finite b) = to_double (a + b)"
| "float_add (Finite a) PosInf = PosInf"
| "float_add (Finite a) NegInf = NegInf"
| "float_add PosInf (Finite b) = PosInf"
| "float_add NegInf (Finite b) = NegInf"
| "float_add PosInf PosInf = PosInf"
| "float_add PosInf NegInf = NaN"
| "float_add NegInf PosInf = NaN"
| "float_add NegInf NegInf = NegInf"
| "float_add NaN g = NaN"
| "float_add (Finite a) NaN = NaN"
| "float_add PosInf NaN = NaN"
| "float_add NegInf NaN = NaN"

fun float_mul :: "pyfloat \<Rightarrow> pyfloat \<Rightarrow> pyfloat" where
  "float_mul (Finite a) (Finite b) = to_double (a * b)"
| "float_mul (Finite a) PosInf = (if a = 0 then NaN else if 0 < a then PosInf else NegInf)"
| "float_mul (Finite a) NegInf = (if a = 0 then NaN else if 0 < a then NegInf else PosInf)"
| "float_mul PosInf (Finite b) = (if b = 0 then NaN else if 0 < b then PosInf else NegInf)"
| "float_mul NegInf (Finite b) = (if b = 0 then NaN else if 0 < b then NegInf else PosInf)"
| "float_mul PosInf PosInf = PosInf"
| "float_mul PosInf NegInf = NegInf"
| "float_mul NegInf PosInf = NegInf"
| "float_mul NegInf NegInf = PosInf"
| "float_mul NaN g = NaN"
| "float_mul (Finite a) NaN = NaN"
| "float_mul PosInf NaN = NaN"
| "float_mul NegInf NaN = NaN"

text \<open>Division by a double other than zero.\<close>

fun float_div :: "pyfloat \<Rightarrow> pyfloat \<Rightarrow> pyfloat" where
  "float_div (Finite a) (Finite b) = to_double (a / b)"
| "float_div (Finite a) PosInf = Finite 0"
| "float_div (Finite a) NegInf = Finite 0"
| "float_div PosInf (Finite b) = (if 0 \<le> b then PosInf else NegInf)"
| "float_div NegInf (Finite b) = (if 0 \<le> b then NegInf else PosInf)"
| "float_div PosInf PosInf = NaN"
| "float_div PosInf NegInf = NaN"
| "float_div NegInf PosInf = NaN"
| "float_div NegInf NegInf = NaN"
| "float_div NaN g = NaN"
| "float_div (Finite a) NaN = NaN"
| "float_div PosInf NaN = NaN"
| "float_div NegInf NaN = NaN"

text \<open>
  \<open>a + b\<close> on numbers: exact on two \<open>int\<close>, otherwise the \<open>int\<close> operand is converted and
  the doubles are added.
\<close>

fun py_add :: "num \<Rightarrow> num \<Rightarrow> py_error + num" where
  "py_add (PyInt a) (PyInt b) = Inr (PyInt (a + b))"
| "py_add (PyInt a) (PyFloat g) = py_bind (int_to_float a) (\<lambda>f. Inr (PyFloat (float_add f g)))"
| "py_add (PyFloat f) (PyInt b) = py_bind (int_to_float b) (\<lambda>g. Inr (PyFloat (float_add f g)))"
| "py_add (PyFloat f) (PyFloat g) = Inr (PyFloat (float_add f g))"

text \<open>
  \<open>sum(xs)\<close>: the elements are added from left to right to the integer 0, so the first
  element that cannot be added ends the run. (CPython 3.12 and later add a compensation
  term to a sum of doubles; a sum of \<open>int\<close> is exact in every version.)
\<close>

fun py_sum_from :: "num \<Rightarrow> json list \<Rightarrow> py_error + num" where
  "py_sum_from acc [] = Inr acc"
| "py_sum_from acc (v # vs) =
     (case num_val v of
        None \<Rightarrow> Inl TypeError
      | Some x \<Rightarrow> py_bind (py_add acc x) (\<lambda>acc'. py_sum_from acc' vs))"

definition py_sum :: "json list \<Rightarrow> py_error + num" where
  "py_sum xs = py_sum_from (PyInt 0) xs"

text \<open>
  \<open>x / n\<close> for an \<open>int\<close> \<open>n\<close>. The quotient of two \<open>int\<close> is the double nearest to the exact
  quotient, and \<open>OverflowError\<close> when that is beyond the largest double; a \<open>float\<close> is
  divided by the converted \<open>n\<close>.
\<close>

fun py_truediv :: "num \<Rightarrow> int \<Rightarrow> py_error + pyfloat" where
  "py_truediv (PyInt a) b =
     (if b = 0 then Inl ZeroDivisionError
      else case to_double (of_int a / of_int b) of
             Finite x \<Rightarrow> Inr (Finite x)
           | _ \<Rightarrow> Inl OverflowError)"
| "py_truediv (PyFloat f) b =
     py_bind (int_to_float b) (\<lambda>g.
       if g = Finite 0 then Inl ZeroDivisionError else Inr (float_div f g))"

text \<open>\<open>f * n\<close> for a \<open>float\<close> \<open>f\<close> and an \<open>int\<close> \<open>n\<close>.\<close>

definition py_mul_int :: "pyfloat \<Rightarrow> int \<Rightarrow> py_error + pyfloat" where
  "py_mul_int f i = py_bind (int_to_float i) (\<lambda>g. Inr (float_mul f g))"

text \<open>
  \<open>a < b\<close> on numbers compares the exact values; every comparison with \<open>NaN\<close> is false.
\<close>

fun float_less :: "pyfloat \<Rightarrow> pyfloat \<Rightarrow> bool" where
  "float_less (Finite a) (Finite b) = (a < b)"
| "float_less (Finite a) PosInf = True"
| "float_less NegInf (Finite b) = True"
| "float_less NegInf PosInf = True"
| "float_less f g = False"

fun num_less :: "num \<Rightarrow> num \<Rightarrow> bool" where
  "num_less (PyInt a) (PyInt b) = (a < b)"
| "num_less (PyInt a) (PyFloat g) = float_less (Finite (of_int a)) g"
| "num_less (PyFloat f) (PyInt b) = float_less f (Finite (of_int b))"
| "num_less (PyFloat f) (PyFloat g) = float_less f g"

text \<open>\<open>max(a, b)\<close> and \<open>min(a, b)\<close> keep the first argument unless the second beats it.\<close>

definition py_max_num :: "num \<Rightarrow> num \<Rightarrow> num" where
  "py_max_num a b = (if num_less a b then b else a)"

definition py_min_num :: "num \<Rightarrow> num \<Rightarrow> num" where
  "py_min_num a b = (if num_less b a then b else a)"

text \<open>
  \<open>round(x)\<close> returns an \<open>int\<close> unchanged and raises on a double that is not finite.
\<close>

fun py_round_num :: "num \<Rightarrow> py_error + int" where
  "py_round_num (PyInt i) = Inr i"
| "py_round_num (PyFloat (Finite x)) = Inr (py_round x)"
| "py_round_num (PyFloat NaN) = Inl ValueError"
| "py_round_num (PyFloat PosInf) = Inl OverflowError"
| "py_round_num (PyFloat NegInf) = Inl OverflowError"

text \<open>
  \<open>round(x, 1)\<close> returns an \<open>int\<close> unchanged; of a finite double it takes the exact value to
  the nearest tenth (a tie to the even one) and returns the double nearest to that tenth;
  an infinity or \<open>NaN\<close> is returned as it is.
\<close>

fun py_round1_num :: "num \<Rightarrow> num" where
  "py_round1_num (PyInt i) = PyInt i"
| "py_round1_num (PyFloat (Finite x)) = PyFloat (to_double (of_int (py_round (x * 10)) / 10))"
| "py_round1_num (PyFloat f) = PyFloat f"

text \<open>\<open>int(x)\<close> truncates towards zero and raises on a double that is not finite.\<close>

definition py_int :: "rat \<Rightarrow> int" where
  "py_int x = (if 0 \<le> x then \<lfloor>x\<rfloor> else \<lceil>x\<rceil>)"

fun py_int_num :: "num \<Rightarrow> py_error + int" where
  "py_int_num (PyInt i) = Inr i"
| "py_int_num (PyFloat (Finite x)) = Inr (py_int x)"
| "py_int_num (PyFloat NaN) = Inl ValueError"
| "py_int_num (PyFloat PosInf) = Inl OverflowError"
| "py_int_num (PyFloat NegInf) = Inl OverflowError"

text \<open>\<open>max\<close> and \<open>min\<close> on exact values, for the lines that stay within the integers.\<close>

definition py_max :: "rat \<Rightarrow> rat \<Rightarrow> rat" where
  "py_max a b = (if a < b then b else a)"

definition py_min :: "rat \<Rightarrow> rat \<Rightarrow> rat" where
  "py_min a b = (if b < a then b else a)"

section \<open>Dates\<close>

text \<open>
  A \<open>date\<close> is its proleptic Gregorian ordinal (\<open>date.toordinal()\<close>), so that
  \<open>(today - listing_date).days\<close> is a subtraction of integers. The analysis takes the
  parser \<open>datetime.strptime(s, '%Y-%m-%d')\<close> and \<open>date.today()\<close> as arguments; a parser
  returns \<open>None\<close> where the library raises \<open>ValueError\<close>.
\<close>

type_synonym date = int

definition is_digit :: "char \<Rightarrow> bool" where
  "is_digit c = (48 \<le> (of_char c :: nat) \<and> (of_char c :: nat) \<le> 57)"

definition digit_val :: "char \<Rightarrow> nat" where
  "digit_val c = of_char c - 48"

definition is_leap :: "nat \<Rightarrow> bool" where
  "is_leap y = (y mod 4 = 0 \<and> (y mod 100 \<noteq> 0 \<or> y mod 400 = 0))"

definition days_in_month :: "nat \<Rightarrow> nat \<Rightarrow> nat" where
  "days_in_month y m =
     (if m = 2 then (if is_leap y then 29 else 28)
      else if m = 4 \<or> m = 6 \<or> m = 9 \<or> m = 11 then 30 else 31)"

definition days_before_year :: "nat \<Rightarrow> nat" where
  "days_before_year y = (y - 1) * 365 + (y - 1) div 4 - (y - 1) div 100 + (y - 1) div 400"

definition days_before_month :: "nat \<Rightarrow> nat \<Rightarrow> nat" where
  "days_before_month y m =
     [0, 31, 59, 90, 120, 151, 181, 212, 243, 273, 304, 334] ! (m - 1)
       + (if 2 < m \<and> is_leap y then 1 else 0)"

definition ymd_to_ordinal :: "nat \<Rightarrow> nat \<Rightarrow> nat \<Rightarrow> date option" where
  "ymd_to_ordinal y m d =
     (if 1 \<le> y \<and> 1 \<le> m \<and> m \<le> 12 \<and> 1 \<le> d \<and> d \<le> days_in_month y m
      then Some (int (days_before_year y + days_before_month y m + d))
      else None)"

text \<open>
  The month directive accepts \<open>1[0-2]\<close>, \<open>0[1-9]\<close> or \<open>[1-9]\<close>; the day directive
  \<open>3[01]\<close>, \<open>[12][0-9]\<close>, \<open>0[1-9]\<close>, \<open>[1-9]\<close> or a blank followed by \<open>[1-9]\<close>. Each
  returns the number read and the rest of the text. A text is a list of 8-bit characters,
  read as the code points below 256, among which the digits \<open>0\<close> to \<open>9\<close> are the only
  decimal digits.
\<close>

fun parse_month :: "string \<Rightarrow> (nat \<times> string) option" where
  "parse_month (a # b # rest) =
     (if a = CHR ''1'' \<and> b \<in> set ''012'' then Some (10 + digit_val b, rest)
      else if a = CHR ''0'' \<and> b \<in> set ''123456789'' then Some (digit_val b, rest)
      else if a \<in> set ''123456789'' then Some (digit_val a, b # rest)
      else None)"
| "parse_month [a] = (if a \<in> set ''123456789'' then Some (digit_val a, []) else None)"
| "parse_month [] = None"

fun parse_day :: "string \<Rightarrow> (nat \<times> string) option" where
  "parse_day (a # b # rest) =
     (if a = CHR ''3'' \<and> b \<in> set ''01'' then Some (30 + digit_val b, rest)
      else if a \<in> set ''12'' \<and> is_digit b then Some (10 * digit_val a + digit_val b, rest)
      else if a = CHR ''0'' \<and> b \<in> set ''123456789'' then Some (digit_val b, rest)
      else if a \<in> set ''123456789'' then Some (digit_val a, b # rest)
      else if a = CHR '' '' \<and> b \<in> set ''123456789'' then Some (digit_val b, rest)
      else None)"
| "parse_day [a] = (if a \<in> set ''123456789'' then Some (digit_val a, []) else None)"
| "parse_day [] = None"

definition strptime_ymd :: "string \<Rightarrow> date option" where
  "strptime_ymd s =
     (case s of
        y1 # y2 # y3 # y4 # dash1 # rest \<Rightarrow>
          if is_digit y1 \<and> is_digit y2 \<and> is_digit y3 \<and> is_digit y4 \<and> dash1 = CHR ''-''
          then (case parse_month rest of
                  Some (m, dash2 # rest') \<Rightarrow>
                    if dash2 = CHR ''-''
                    then (case parse_day rest' of
                            Some (d, []) \<Rightarrow>
                              ymd_to_ordinal
                                (1000 * digit_val y1 + 100 * digit_val y2
                                   + 10 * digit_val y3 + digit_val y4) m d
                          | _ \<Rightarrow> None)
                    else None
                | _ \<Rightarrow> None)
          else None
      | _ \<Rightarrow> None)"

section \<open>The analyzer\<close>

record summary_stats =
  total_listings :: nat
  avg_sale_price :: int
  avg_days_on_market :: int
  avg_bedrooms :: num

record score =
  label :: string
  score_value :: int
  explanation :: string

record scorecard_entries =
  liquidity_risk :: score
  family_growth_potential :: score

record analysis =
  summary :: summary_stats
  scorecard :: scorecard_entries
  raw_properties :: "json list"

text \<open>
  \<open>[p.get('price', 0) for p in properties if p.get('price') is not None]\<close>: the
  comprehension reads \<open>price\<close> of every element in turn and stops at the first element
  that is not a \<open>dict\<close>.
\<close>

fun sale_prices :: "json list \<Rightarrow> py_error + json list" where
  "sale_prices [] = Inr []"
| "sale_prices (p # ps) =
     py_bind (py_get p ''price'' JNull) (\<lambda>c.
     py_bind (if c \<noteq> JNull then py_bind (py_get p ''price'' (JInt 0)) (\<lambda>v. Inr [v])
              else Inr []) (\<lambda>here.
     py_bind (sale_prices ps) (\<lambda>rest. Inr (here @ rest))))"

text \<open>\<open>sum(xs) / len(xs) if xs else 0\<close>, as written for the prices and for the bedrooms.\<close>

definition mean_or_zero :: "json list \<Rightarrow> py_error + num" where
  "mean_or_zero xs =
     (if xs \<noteq> []
      then py_bind (py_sum xs) (\<lambda>s.
           py_bind (py_truediv s (int (length xs))) (\<lambda>m. Inr (PyFloat m)))
      else Inr (PyInt 0))"

text \<open>
  The loop filling \<open>dom_list\<close>. Inside the \<open>try\<close>, \<open>strptime\<close> raises \<open>TypeError\<close> on an
  object that is not a \<open>str\<close> and \<open>ValueError\<close> on a text it cannot read; the bare
  \<open>except\<close> turns both into \<open>continue\<close>.
\<close>

fun dom_list :: "(string \<Rightarrow> date option) \<Rightarrow> date \<Rightarrow> json list \<Rightarrow> py_error + int list" where
  "dom_list strptime today [] = Inr []"
| "dom_list strptime today (p # ps) =
     py_bind (py_get p ''listing_date'' JNull) (\<lambda>listing_date_str.
     py_bind (dom_list strptime today ps) (\<lambda>rest.
       Inr (if truthy listing_date_str
            then (case listing_date_str of
                    JStr s \<Rightarrow>
                      (case strptime s of
                         Some listing_date \<Rightarrow> (today - listing_date) # rest
                       | None \<Rightarrow> rest)
                  | _ \<Rightarrow> rest)
            else rest)))"

text \<open>
  The loop filling \<open>bedrooms\<close>: \<open>if beds and beds > 0\<close> compares only a truthy \<open>beds\<close>
  with 0, and the comparison raises unless \<open>beds\<close> is a number. The list keeps the
  objects themselves.
\<close>

fun bedrooms :: "json list \<Rightarrow> py_error + json list" where
  "bedrooms [] = Inr []"
| "bedrooms (p # ps) =
     py_bind (py_get p ''attributes'' (JObj [])) (\<lambda>attrs.
     py_bind (py_get attrs ''bedrooms'' (JInt 0)) (\<lambda>beds.
     py_bind (if truthy beds
              then (case num_val beds of
                      None \<Rightarrow> Inl TypeError
                    | Some x \<Rightarrow> Inr (if num_less (PyInt 0) x then [beds] else []))
              else Inr []) (\<lambda>here.
     py_bind (bedrooms ps) (\<lambda>rest. Inr (here @ rest)))))"

text \<open>\<open>max(0, min(100, (avg_beds / 4) * 100))\<close>.\<close>

definition growth_score_of :: "num \<Rightarrow> py_error + num" where
  "growth_score_of avg_beds =
     py_bind (py_truediv avg_beds 4) (\<lambda>x.
     py_bind (py_mul_int x 100) (\<lambda>y.
       Inr (py_max_num (PyInt 0) (py_min_num (PyInt 100) (PyFloat y)))))"

text \<open>\<open>int(growth_score)\<close> of that value.\<close>

definition growth_value :: "num \<Rightarrow> py_error + int" where
  "growth_value avg_beds = py_bind (growth_score_of avg_beds) py_int_num"

text \<open>
  The growth value of an average that is the double nearest to \<open>k\<close> tenths, which is how
  \<open>round(x, 1)\<close> leaves it.
\<close>

definition tenth_growth :: "int \<Rightarrow> py_error + int" where
  "tenth_growth k = growth_value (PyFloat (to_double (of_int k / 10)))"

definition risk_explanation :: string where
  "risk_explanation = ''Measures how quickly properties are selling (Days on Market). Higher score means lower risk and faster sale times.''"

definition growth_explanation :: string where
  "growth_explanation = ''A heuristic based on average property size (bedrooms), indicating stable, long-term family demand.''"

text \<open>
  \<open>analyze_property_data\<close>. \<open>Inr None\<close> is the Python \<open>return None\<close>. A \<open>results\<close> that is
  a non-empty \<open>str\<close> or \<open>dict\<close> iterates over strings, and the first \<open>p.get\<close> raises.

  The prices and the bedrooms come from the payload as any numbers, so their sums, means
  and roundings are those of Python's numbers above. The days on market are differences
  of two date ordinals, which lie between 1 and 3652059, and the lines computing
  \<open>avg_dom\<close> and \<open>risk_score\<close> are carried out on the exact values: on a sum of days below
  \<open>2\<^sup>5\<^sup>2\<close> in magnitude the double quotient \<open>sum(dom_list) / len(dom_list)\<close> rounds to the
  same integer as the exact quotient (lemma \<open>round_fl_quotient\<close> below), and
  \<open>100 - (avg_dom - 20) * 1.5\<close> is then a double computed without rounding.
\<close>

definition analyze_property_data ::
  "(string \<Rightarrow> date option) \<Rightarrow> date \<Rightarrow> json \<Rightarrow> py_error + analysis option" where
  "analyze_property_data strptime today data =
     py_bind (py_get data ''results'' (JArr [])) (\<lambda>properties.
     py_bind (py_len properties) (\<lambda>n.
     if \<not> truthy properties then Inr None
     else case properties of
       JArr ps \<Rightarrow>
         py_bind (sale_prices ps) (\<lambda>prices.
         py_bind (mean_or_zero prices) (\<lambda>mean_price.
         py_bind (py_round_num mean_price) (\<lambda>avg_price.
         py_bind (dom_list strptime today ps) (\<lambda>doms.
         py_bind (bedrooms ps) (\<lambda>beds.
         py_bind (mean_or_zero beds) (\<lambda>mean_beds.
         py_bind (growth_value (py_round1_num mean_beds)) (\<lambda>growth.
           let avg_dom = py_round (if doms \<noteq> []
                                   then of_int (sum_list doms) / of_nat (length doms)
                                   else 0);
               risk_score = py_max 0 (py_min 100 (100 - (of_int avg_dom - 20) * (3 / 2)))
           in Inr (Some
                \<lparr>summary =
                   \<lparr>total_listings = n,
                    avg_sale_price = avg_price,
                    avg_days_on_market = avg_dom,
                    avg_bedrooms = py_round1_num mean_beds\<rparr>,
                 scorecard =
                   \<lparr>liquidity_risk =
                      \<lparr>label = ''Liquidity Risk Score'',
                       score_value = py_int risk_score,
                       explanation = risk_explanation\<rparr>,
                    family_growth_potential =
                      \<lparr>label = ''Family Growth Potential'',
                       score_value = growth,
                       explanation = growth_explanation\<rparr>\<rparr>,
                 raw_properties = take 5 ps\<rparr>))))))))
     | _ \<Rightarrow> Inl AttributeError))"

section \<open>The endpoint \<open>/api/analyze\<close>\<close>

text \<open>
  The exceptions the \<open>try\<close> block of \<open>analyze_suburb\<close> can see. \<open>HTTPError\<close> carries
  \<open>e.response.status_code\<close>. In the \<open>requests\<close> library \<open>HTTPError\<close>, \<open>ConnectionError\<close>,
  \<open>Timeout\<close> and \<open>JSONDecodeError\<close> (through \<open>InvalidJSONError\<close>) are all subclasses of
  \<open>RequestException\<close>; an error raised by the analysis is not.
\<close>

datatype exn =
    HTTPError nat
  | ConnectionError
  | Timeout
  | JSONDecodeError
  | PyError py_error

fun is_HTTPError :: "exn \<Rightarrow> bool" where
  "is_HTTPError (HTTPError c) = True"
| "is_HTTPError _ = False"

fun is_RequestException :: "exn \<Rightarrow> bool" where
  "is_RequestException (PyError e) = False"
| "is_RequestException _ = True"

text \<open>
  What the code reads of an upstream response: its status code and its body as
  \<open>response.json()\<close> parses it, \<open>None\<close> standing for a body that is not valid JSON.
\<close>

record response =
  status_code :: nat
  json_body :: "json option"

definition raise_for_status :: "response \<Rightarrow> exn + unit" where
  "raise_for_status r =
     (if 400 \<le> status_code r \<and> status_code r < 600
      then Inl (HTTPError (status_code r)) else Inr ())"

definition response_json :: "response \<Rightarrow> exn + json" where
  "response_json r = (case json_body r of None \<Rightarrow> Inl JSONDecodeError | Some j \<Rightarrow> Inr j)"

text \<open>The outbound call, recorded so that a run shows which fetches it made.\<close>

record outbound =
  url :: string
  params :: "(string \<times> string) list"
  headers :: "(string \<times> string) list"
  timeout :: nat

definition API_URL :: string where
  "API_URL = ''https://www.microburbs.com.au/report_generator/api/suburb/properties''"

definition API_HEADERS :: "(string \<times> string) list" where
  "API_HEADERS = [(''Authorization'', ''Bearer test''), (''Content-Type'', ''application/json'')]"

definition requests_get_call :: "string \<Rightarrow> outbound" where
  "requests_get_call suburb_name =
     \<lparr>url = API_URL, params = [(''suburb'', suburb_name)], headers = API_HEADERS, timeout = 10\<rparr>"

text \<open>\<open>jsonify(...)\<close> of the two shapes the endpoint answers with, paired with the status.\<close>

datatype body = ErrorBody string | AnalysisBody string analysis

type_synonym reply = "body \<times> nat"

text \<open>\<open>str(n)\<close> of a status code, for the f-string of the generic upstream error.\<close>

fun str_nat :: "nat \<Rightarrow> string" where
  "str_nat n =
     (if n < 10 then [''0123456789'' ! n]
      else str_nat (n div 10) @ [''0123456789'' ! (n mod 10)])"

declare str_nat.simps [simp del]

definition try_block ::
  "(string \<Rightarrow> date option) \<Rightarrow> date \<Rightarrow> (outbound \<Rightarrow> exn + response) \<Rightarrow> string \<Rightarrow> exn + reply" where
  "try_block strptime today requests_get suburb_name =
     py_bind (requests_get (requests_get_call suburb_name)) (\<lambda>response.
     py_bind (raise_for_status response) (\<lambda>_.
     py_bind (response_json response) (\<lambda>raw_data.
     py_bind (case analyze_property_data strptime today raw_data of
                Inl e \<Rightarrow> Inl (PyError e) | Inr r \<Rightarrow> Inr r) (\<lambda>analysis_result.
       case analysis_result of
         None \<Rightarrow>
           Inr (ErrorBody (''No property data found for '' @ suburb_name
                             @ ''. Please try a different suburb.''), 404)
       | Some a \<Rightarrow> Inr (AnalysisBody suburb_name a, 200)))))"

text \<open>The three \<open>except\<close> clauses, tried in the order of the source.\<close>

definition except_clauses :: "string \<Rightarrow> exn \<Rightarrow> reply" where
  "except_clauses suburb_name e =
     (case e of
        HTTPError code \<Rightarrow>
          (ErrorBody
             (if code = 401
              then ''API Authentication Failed. Please check the Bearer token.''
              else if code = 404
              then ''Suburb '' @ [CHR 0x27] @ suburb_name @ [CHR 0x27]
                     @ '' not found or no data available.''
              else ''An API error occurred: HTTP '' @ str_nat code),
           code)
      | _ \<Rightarrow>
          if is_RequestException e
          then (ErrorBody ''Could not connect to the external Microburbs API.'', 503)
          else (ErrorBody ''An unexpected server error occurred during analysis.'', 500))"

text \<open>
  \<open>analyze_suburb\<close>: the argument is \<open>request.args.get('suburb')\<close>, the result the reply
  and the outbound calls made. \<open>not suburb_name\<close> holds of \<open>None\<close> and of the empty text.
\<close>

definition analyze_suburb ::
  "(string \<Rightarrow> date option) \<Rightarrow> date \<Rightarrow> (outbound \<Rightarrow> exn + response) \<Rightarrow> string option
     \<Rightarrow> reply \<times> outbound list" where
  "analyze_suburb strptime today requests_get arg =
     (case arg of
        None \<Rightarrow> ((ErrorBody ''Suburb name is required.'', 400), [])
      | Some suburb_name \<Rightarrow>
          if suburb_name = [] then ((ErrorBody ''Suburb name is required.'', 400), [])
          else
            (case try_block strptime today requests_get suburb_name of
               Inr reply \<Rightarrow> (reply, [requests_get_call suburb_name])
             | Inl e \<Rightarrow> (except_clauses suburb_name e, [requests_get_call suburb_name])))"

section \<open>The specification's formulas\<close>

text \<open>
  The definitions of this section follow the wording of the specification, not the
  code; the theorems below compare the two.
\<close>

definition field :: "json \<Rightarrow> string \<Rightarrow> json option" where
  "field p k = (case p of JObj kvs \<Rightarrow> map_of kvs k | _ \<Rightarrow> None)"


definition spec_average :: "rat list \<Rightarrow> rat" where
  "spec_average vs = sum_list vs / of_nat (length vs)"

text \<open>
  Rounded to the nearest integer: at most one half away, and the even neighbour when
  exactly one half away. Rounded to one decimal: \<open>k\<close> tenths, at most one twentieth away.
\<close>

definition nearest_integer :: "int \<Rightarrow> rat \<Rightarrow> bool" where
  "nearest_integer k x =
     (\<bar>of_int k - x\<bar> \<le> 1 / 2 \<and> (\<bar>of_int k - x\<bar> = 1 / 2 \<longrightarrow> even k))"


text \<open>
  A record that is a mapping; a value that is null or an integer; the price of a record
  where it is an integer.
\<close>

definition is_dict :: "json \<Rightarrow> bool" where
  "is_dict p = (case p of JObj kvs \<Rightarrow> True | _ \<Rightarrow> False)"

definition null_or_int :: "json \<Rightarrow> bool" where
  "null_or_int v = (case v of JNull \<Rightarrow> True | JInt i \<Rightarrow> True | _ \<Rightarrow> False)"

definition price_present :: "json \<Rightarrow> bool" where
  "price_present p = (case field p ''price'' of None \<Rightarrow> False | Some v \<Rightarrow> v \<noteq> JNull)"

definition integer_price :: "json \<Rightarrow> bool" where
  "integer_price p = (case field p ''price'' of None \<Rightarrow> True | Some v \<Rightarrow> null_or_int v)"

definition spec_price :: "json \<Rightarrow> int option" where
  "spec_price p =
     (case field p ''price'' of
        None \<Rightarrow> None
      | Some v \<Rightarrow> (case v of JInt i \<Rightarrow> Some i | _ \<Rightarrow> None))"

text \<open>The days on market of a record whose \<open>listing_date\<close> parses.\<close>

definition spec_days_on_market :: "(string \<Rightarrow> date option) \<Rightarrow> date \<Rightarrow> json \<Rightarrow> int option" where
  "spec_days_on_market strptime today p =
     (case field p ''listing_date'' of
        Some (JStr s) \<Rightarrow>
          (case strptime s of Some d \<Rightarrow> Some (today - d) | None \<Rightarrow> None)
      | _ \<Rightarrow> None)"




definition integer_bedrooms :: "json \<Rightarrow> bool" where
  "integer_bedrooms p =
     (case field p ''attributes'' of
        None \<Rightarrow> True
      | Some attrs \<Rightarrow>
          (case field attrs ''bedrooms'' of None \<Rightarrow> True | Some v \<Rightarrow> null_or_int v))"


text \<open>
  A record with nothing malformed in it but, possibly, its date: a mapping whose \<open>price\<close>
  is absent, null or an integer, whose \<open>attributes\<close> is absent or a mapping, and whose
  \<open>bedrooms\<close> is absent, null or an integer. Nothing is asked of \<open>listing_date\<close>.
\<close>

definition clean_record :: "json \<Rightarrow> bool" where
  "clean_record p =
     (case p of
        JObj kvs \<Rightarrow>
          integer_price p \<and> integer_bedrooms p
          \<and> (case map_of kvs ''attributes'' of
                None \<Rightarrow> True
              | Some attrs \<Rightarrow> (case attrs of JObj akvs \<Rightarrow> True | _ \<Rightarrow> False))
      | _ \<Rightarrow> False)"

section \<open>Worked examples\<close>

text \<open>
  Six records read on 4 November 2025: two complete ones, one with a zero price, an
  unreadable date and zero bedrooms, one with null fields, an empty one, and one with a
  fractional price, a date that is not a text and a negative bedroom count.
\<close>

definition example_today :: date where
  "example_today = 739559"

definition example_results :: "json list" where
  "example_results =
     [JObj [(''price'', JInt 500000), (''listing_date'', JStr ''2025-10-05''),
            (''attributes'', JObj [(''bedrooms'', JInt 3)])],
      JObj [(''price'', JInt 600000), (''listing_date'', JStr ''2025-09-01''),
            (''attributes'', JObj [(''bedrooms'', JInt 2)])],
      JObj [(''price'', JInt 0), (''listing_date'', JStr ''not a date''),
            (''attributes'', JObj [(''bedrooms'', JInt 0)])],
      JObj [(''price'', JNull), (''listing_date'', JNull), (''attributes'', JObj [])],
      JObj [],
      JObj [(''price'', JFloat (Finite (500001 / 2))), (''listing_date'', JInt 20251001),
            (''attributes'', JObj [(''bedrooms'', JInt (- 1))])]]"

definition example_payload :: json where
  "example_payload = JObj [(''results'', JArr example_results)]"

definition example_analysis :: analysis where
  "example_analysis =
     \<lparr>summary =
        \<lparr>total_listings = 6,
         avg_sale_price = 337500,
         avg_days_on_market = 47,
         avg_bedrooms = PyFloat (Finite (5 / 2))\<rparr>,
      scorecard =
        \<lparr>liquidity_risk =
           \<lparr>label = ''Liquidity Risk Score'',
            score_value = 59,
            explanation = risk_explanation\<rparr>,
         family_growth_potential =
           \<lparr>label = ''Family Growth Potential'',
            score_value = 62,
            explanation = growth_explanation\<rparr>\<rparr>,
      raw_properties = take 5 example_results\<rparr>"

text \<open>
  Six records with integer values, half of them incomplete: the prices 450000, 520000
  and 520003 average to 496667.67, the days 30, 64 and 67 to 53.67, and the bedrooms
  3, 2 and 3 to 2.67.
\<close>

definition mixed_results :: "json list" where
  "mixed_results =
     [JObj [(''price'', JInt 450000), (''listing_date'', JStr ''2025-10-05''),
            (''attributes'', JObj [(''bedrooms'', JInt 3)])],
      JObj [(''price'', JNull), (''listing_date'', JStr ''soon''),
            (''attributes'', JObj [(''bedrooms'', JNull)])],
      JObj [(''price'', JInt 520000), (''listing_date'', JStr ''2025-09-01''),
            (''attributes'', JObj [])],
      JObj [(''listing_date'', JNull), (''attributes'', JObj [(''bedrooms'', JInt 2)])],
      JObj [(''price'', JInt 520003), (''listing_date'', JStr ''2025-08-29''),
            (''attributes'', JObj [(''bedrooms'', JInt 3)])],
      JObj []]"

definition mixed_payload :: json where
  "mixed_payload = JObj [(''results'', JArr mixed_results)]"

definition mixed_analysis :: analysis where
  "mixed_analysis =
     \<lparr>summary =
        \<lparr>total_listings = 6,
         avg_sale_price = 496668,
         avg_days_on_market = 54,
         avg_bedrooms = PyFloat (to_double (27 / 10))\<rparr>,
      scorecard =
        \<lparr>liquidity_risk =
           \<lparr>label = ''Liquidity Risk Score'',
            score_value = 49,
            explanation = risk_explanation\<rparr>,
         family_growth_potential =
           \<lparr>label = ''Family Growth Potential'',
            score_value = 67,
            explanation = growth_explanation\<rparr>\<rparr>,
      raw_properties = take 5 mixed_results\<rparr>"

section \<open>Properties of the arithmetic\<close>

subsection \<open>Sequencing\<close>

lemma py_bind_Inl [simp]: "py_bind (Inl e) f = Inl e"
  by (simp add: py_bind_def)

lemma py_bind_Inr [simp]: "py_bind (Inr x) f = f x"
  by (simp add: py_bind_def)

lemma py_bind_eq_Inr: "py_bind m f = Inr y \<longleftrightarrow> (\<exists>x. m = Inr x \<and> f x = Inr y)"
  by (cases m) simp_all

subsection \<open>Rounding to an integer\<close>

lemma py_round_nearest: "\<bar>of_int (py_round x) - x\<bar> \<le> 1 / 2"
proof -
  have "of_int \<lfloor>x\<rfloor> \<le> x" and "x < of_int \<lfloor>x\<rfloor> + 1"
    by linarith+
  then show ?thesis
    by (auto simp: py_round_def abs_le_iff)
qed

lemma py_round_of_int [simp]: "py_round (of_int k) = k"
  by (simp add: py_round_def)

lemma py_round_unique:
  assumes "\<bar>x - of_int k\<bar> < 1 / 2"
  shows "py_round x = k"
proof -
  have f: "of_int \<lfloor>x\<rfloor> \<le> x" "x < of_int \<lfloor>x\<rfloor> + 1"
    by linarith+
  from assms have k: "of_int k - 1 / 2 < x" "x < of_int k + 1 / 2"
    by linarith+
  from f k have "(of_int \<lfloor>x\<rfloor> :: rat) < of_int (k + 1)" "(of_int (k - 1) :: rat) < of_int (\<lfloor>x\<rfloor> + 1)"
    by simp_all linarith+
  then have "\<lfloor>x\<rfloor> < k + 1" "k - 1 < \<lfloor>x\<rfloor> + 1"
    unfolding of_int_less_iff by simp_all
  then consider "\<lfloor>x\<rfloor> = k" | "\<lfloor>x\<rfloor> = k - 1"
    by linarith
  then show ?thesis
  proof cases
    case 1
    with k show ?thesis by (simp add: py_round_def)
  next
    case 2
    with k show ?thesis by (simp add: py_round_def)
  qed
qed


lemma py_round_zero [simp]: "py_round 0 = 0"
  using py_round_of_int[of 0] by simp


lemma py_round_strict:
  assumes "x - of_int \<lfloor>x\<rfloor> \<noteq> 1 / 2"
  shows "\<bar>of_int (py_round x) - x\<bar> < 1 / 2"
proof -
  have "of_int \<lfloor>x\<rfloor> \<le> x" and "x < of_int \<lfloor>x\<rfloor> + 1"
    by linarith+
  with assms show ?thesis
    by (auto simp: py_round_def abs_less_iff)
qed

lemma floor_rat_numeral_div [simp]:
  "\<lfloor>(numeral a :: rat) / numeral b\<rfloor> = numeral a div numeral b"
  using floor_divide_of_int_eq[of "numeral a" "numeral b", where 'a = rat] by simp

lemma floor_rat_neg_numeral_div [simp]:
  "\<lfloor>- ((numeral a :: rat) / numeral b)\<rfloor> = - numeral a div numeral b"
  using floor_divide_of_int_eq[of "- numeral a" "numeral b", where 'a = rat] by simp

subsection \<open>Rounding to a double\<close>

lemma ilog2_bounds:
  assumes "x \<noteq> 0"
  shows "2 powi ilog2 x \<le> \<bar>x\<bar>" and "\<bar>x\<bar> < 2 powi (ilog2 x + 1)"
proof -
  define p where "p = fst (quotient_of \<bar>x\<bar>)"
  define q where "q = snd (quotient_of \<bar>x\<bar>)"
  define d where "d = bitlen p - bitlen q"
  have q: "0 < q"
    by (simp add: q_def quotient_of_denom_pos')
  have x: "\<bar>x\<bar> = of_int p / of_int q"
    using quotient_of_div[of "\<bar>x\<bar>" p q] by (simp add: p_def q_def)
  from assms have "0 < \<bar>x\<bar>" by simp
  with x q have p: "0 < p"
    by (simp add: zero_less_divide_iff)
  from bitlen_bounds[OF p] have pb: "2 ^ nat (bitlen p - 1) \<le> p" "p < 2 ^ nat (bitlen p)"
    by simp_all
  from bitlen_bounds[OF q] have qb: "2 ^ nat (bitlen q - 1) \<le> q" "q < 2 ^ nat (bitlen q)"
    by simp_all
  have bp: "1 \<le> bitlen p"
  proof (rule ccontr)
    assume "\<not> 1 \<le> bitlen p"
    then have "nat (bitlen p) = 0" by simp
    with pb(2) p show False by simp
  qed
  have bq: "1 \<le> bitlen q"
  proof (rule ccontr)
    assume "\<not> 1 \<le> bitlen q"
    then have "nat (bitlen q) = 0" by simp
    with qb(2) q show False by simp
  qed
  have pw: "(2::rat) powi k = 2 ^ nat k" if "0 \<le> k" for k
    using that power_int_of_nat[of "2::rat" "nat k"] by simp
  have pl: "(2::rat) powi (bitlen p - 1) \<le> of_int p"
  proof -
    have "(of_int (2 ^ nat (bitlen p - 1)) :: rat) \<le> of_int p"
      using pb(1) unfolding of_int_le_iff .
    with bp show ?thesis by (simp add: pw)
  qed
  have pu: "(of_int p :: rat) < 2 powi bitlen p"
  proof -
    have "(of_int p :: rat) < of_int (2 ^ nat (bitlen p))"
      using pb(2) unfolding of_int_less_iff .
    with bp show ?thesis by (simp add: pw)
  qed
  have ql: "(2::rat) powi (bitlen q - 1) \<le> of_int q"
  proof -
    have "(of_int (2 ^ nat (bitlen q - 1)) :: rat) \<le> of_int q"
      using qb(1) unfolding of_int_le_iff .
    with bq show ?thesis by (simp add: pw)
  qed
  have qu: "(of_int q :: rat) < 2 powi bitlen q"
  proof -
    have "(of_int q :: rat) < of_int (2 ^ nat (bitlen q))"
      using qb(2) unfolding of_int_less_iff .
    with bq show ?thesis by (simp add: pw)
  qed
  have pos: "0 < (2::rat) powi k" for k
    by (simp add: zero_less_power_int)
  have up: "\<bar>x\<bar> < 2 powi (d + 1)"
  proof -
    have p0: "0 \<le> (of_int p :: rat)"
      using p by simp
    have "of_int p / of_int q < (2::rat) powi bitlen p / 2 powi (bitlen q - 1)"
      using p0 pu pos[of "bitlen q - 1"] ql by (rule frac_less)
    also have "\<dots> = 2 powi (d + 1)"
      by (simp add: d_def power_int_diff[symmetric] algebra_simps)
    finally show ?thesis by (simp add: x)
  qed
  have lo: "2 powi (d - 1) \<le> \<bar>x\<bar>"
  proof -
    have p0: "0 \<le> (of_int p :: rat)" and q0: "0 < (of_int q :: rat)"
      using p q by simp_all
    have qu': "(of_int q :: rat) \<le> 2 powi bitlen q"
      using qu by simp
    have "(2::rat) powi (bitlen p - 1) / 2 powi bitlen q \<le> of_int p / of_int q"
      using p0 pl q0 qu' by (rule frac_le)
    moreover have "(2::rat) powi (bitlen p - 1) / 2 powi bitlen q = 2 powi (d - 1)"
      by (simp add: d_def power_int_diff[symmetric] algebra_simps)
    ultimately show ?thesis by (simp add: x)
  qed
  have il: "ilog2 x = (if 2 powi d \<le> \<bar>x\<bar> then d else d - 1)"
    by (simp add: ilog2_def Let_def d_def p_def q_def)
  show "2 powi ilog2 x \<le> \<bar>x\<bar>"
    using lo by (simp add: il)
  show "\<bar>x\<bar> < 2 powi (ilog2 x + 1)"
    using up by (simp add: il)
qed


lemma powi_pos [simp]: "0 < (2::rat) powi k"
  by (simp add: zero_less_power_int)

lemma ilog2_less:
  assumes "x \<noteq> 0" and "\<bar>x\<bar> < 2 powi j"
  shows "ilog2 x < j"
proof (rule ccontr)
  assume "\<not> ilog2 x < j"
  then have "(2::rat) powi j \<le> 2 powi ilog2 x"
    by (intro power_int_increasing) simp_all
  with ilog2_bounds(1)[OF assms(1)] assms(2) show False
    by linarith
qed

lemma ilog2_ge:
  assumes "2 powi j \<le> \<bar>x\<bar>"
  shows "j \<le> ilog2 x"
proof (rule ccontr)
  assume "\<not> j \<le> ilog2 x"
  then have "(2::rat) powi (ilog2 x + 1) \<le> 2 powi j"
    by (intro power_int_increasing) simp_all
  moreover from assms powi_pos[of j] have "0 < \<bar>x\<bar>"
    by linarith
  then have "x \<noteq> 0"
    by simp
  ultimately show False
    using ilog2_bounds(2)[of x] assms by linarith
qed

lemma fl_zero [simp]: "fl 0 = 0"
  by (simp add: fl_def)


lemma fl_error: "\<bar>fl x - x\<bar> \<le> 2 powi fl_exp x / 2"
proof (cases "x = 0")
  case True
  then show ?thesis by simp
next
  case False
  define e where "e = fl_exp x"
  have "fl x - x = (of_int (py_round (x / 2 powi e)) - x / 2 powi e) * 2 powi e"
    using False by (simp add: fl_def e_def algebra_simps)
  then have "\<bar>fl x - x\<bar> = \<bar>of_int (py_round (x / 2 powi e)) - x / 2 powi e\<bar> * 2 powi e"
    by (simp add: abs_mult)
  also have "\<dots> \<le> 1 / 2 * 2 powi e"
    by (intro mult_right_mono py_round_nearest) simp
  finally show ?thesis
    by (simp add: e_def)
qed

text \<open>In the normal range the spacing is at most \<open>2\<^sup>-\<^sup>5\<^sup>2\<close> times the magnitude.\<close>

lemma fl_exp_cases:
  assumes "x \<noteq> 0"
  obtains (normal) "fl_exp x = ilog2 x - 52" "2 powi fl_exp x * 2 ^ 52 \<le> \<bar>x\<bar>"
  | (subnormal) "fl_exp x = - 1074" "\<bar>x\<bar> < 2 powi (- 1021)"
proof (cases "- 1074 \<le> ilog2 x - 52")
  case True
  then have e: "fl_exp x = ilog2 x - 52"
    by (simp add: fl_exp_def)
  have "(2::rat) powi (ilog2 x - 52) * 2 ^ 52 = 2 powi ilog2 x"
    by (simp add: power_int_diff)
  with ilog2_bounds(1)[OF assms] e normal show ?thesis
    by simp
next
  case False
  then have e: "fl_exp x = - 1074"
    by (simp add: fl_exp_def)
  from False have "ilog2 x + 1 \<le> - 1021"
    by simp
  then have "(2::rat) powi (ilog2 x + 1) \<le> 2 powi (- 1021)"
    by (intro power_int_increasing) simp_all
  with ilog2_bounds(2)[OF assms] e subnormal show ?thesis
    by simp
qed

lemma fl_exact:
  assumes "x = of_int m * 2 powi e" and "\<bar>m\<bar> < 2 ^ 53" and "- 1074 \<le> e"
  shows "fl x = x"
proof (cases "x = 0")
  case True
  then show ?thesis by simp
next
  case False
  define f where "f = fl_exp x"
  have "(of_int \<bar>m\<bar> :: rat) < of_int (2 ^ 53)"
    using assms(2) unfolding of_int_less_iff .
  then have m: "(of_int \<bar>m\<bar> :: rat) < 2 powi 53"
    by simp
  have "\<bar>x\<bar> = of_int \<bar>m\<bar> * 2 powi e"
    by (simp add: assms(1) abs_mult)
  also have "\<dots> < 2 powi 53 * 2 powi e"
    using m by (rule mult_strict_right_mono) simp
  also have "\<dots> = 2 powi (e + 53)"
    by (simp add: power_int_add)
  finally have "ilog2 x < e + 53"
    using False by (intro ilog2_less)
  with assms(3) have le: "f \<le> e"
    by (simp add: fl_exp_def f_def)
  define j where "j = nat (e - f)"
  from le have j: "e = f + int j"
    by (simp add: j_def)
  have pw: "(2::rat) powi e = 2 ^ j * 2 powi f"
    unfolding j by (simp add: power_int_add power_int_of_nat)
  have "x / 2 powi f = of_int m * 2 ^ j"
    unfolding assms(1) pw by simp
  also have "\<dots> = of_int (m * 2 ^ j)"
    by simp
  finally have "py_round (x / 2 powi f) = m * 2 ^ j"
    by (simp only: py_round_of_int)
  then have "fl x = of_int (m * 2 ^ j) * 2 powi f"
    using False by (simp add: fl_def f_def)
  also have "\<dots> = of_int m * (2 ^ j * 2 powi f)"
    by simp
  also have "\<dots> = x"
    unfolding assms(1) pw ..
  finally show ?thesis .
qed

lemma fl_of_int: "\<bar>m\<bar> < 2 ^ 53 \<Longrightarrow> fl (of_int m) = of_int m"
  using fl_exact[of "of_int m" m 0] by simp


lemma powi_small: "(2::rat) powi (- 1021) \<le> 1 / 8" "(2::rat) powi (- 1074) \<le> 1 / 8"
proof -
  have "(2::rat) powi (- 1021) \<le> 2 powi (- 3)" "(2::rat) powi (- 1074) \<le> 2 powi (- 3)"
    by (intro power_int_increasing; simp)+
  moreover have "(2::rat) powi (- 3) = 1 / 8"
    by (simp add: power_int_minus_divide)
  ultimately show "(2::rat) powi (- 1021) \<le> 1 / 8" "(2::rat) powi (- 1074) \<le> 1 / 8"
    by simp_all
qed

text \<open>A quotient of integers in the subnormal range rounds to 0 before and after \<open>fl\<close>.\<close>

lemma fl_subnormal_small:
  assumes "x \<noteq> 0" and "fl_exp x = - 1074" and "\<bar>x\<bar> < 2 powi (- 1021)"
  shows "\<bar>fl x\<bar> < 1 / 40" and "\<bar>x\<bar> < 1 / 40"
proof -
  have a: "(2::rat) powi (- 1021) \<le> 2 powi (- 7)" "(2::rat) powi (- 1074) \<le> 2 powi (- 7)"
    by (intro power_int_increasing; simp)+
  have b: "(2::rat) powi (- 7) = 1 / 128"
    by (simp add: power_int_minus_divide)
  from fl_error[of x] assms(2) have "\<bar>fl x - x\<bar> \<le> 2 powi (- 1074) / 2"
    by simp
  with assms(3) a b show "\<bar>fl x\<bar> < 1 / 40" and "\<bar>x\<bar> < 1 / 40"
    by linarith+
qed

lemma round_fl_quotient:
  fixes s n :: int
  assumes "\<bar>s\<bar> < 2 ^ 52" and "0 < n"
  shows "py_round (fl (of_int s / of_int n)) = py_round (of_int s / of_int n)"
proof -
  define q :: rat where "q = of_int s / of_int n"
  define k where "k = py_round q"
  define N :: rat where "N = of_int n"
  have N: "0 < N" "1 \<le> N"
    using assms(2) by (simp_all add: N_def)
  have S: "\<bar>of_int s :: rat\<bar> < 2 ^ 52"
  proof -
    have "(of_int \<bar>s\<bar> :: rat) < of_int (2 ^ 52)"
      using assms(1) unfolding of_int_less_iff .
    then show ?thesis by simp
  qed
  have qN: "q * N = of_int s"
    using N by (simp add: q_def N_def)
  have absq: "\<bar>q\<bar> * N = \<bar>of_int s\<bar>"
    using qN N by (metis abs_mult abs_of_pos)
  have "py_round (fl q) = k"
  proof (cases "q = 0")
    case True
    then show ?thesis by (simp add: k_def)
  next
    case False
    then show ?thesis
    proof (cases rule: fl_exp_cases)
      case subnormal
      from fl_subnormal_small[OF False subnormal]
      have a: "\<bar>fl q - of_int 0\<bar> < 1 / 2" and b: "\<bar>q - of_int 0\<bar> < 1 / 2"
        by simp_all
      from a have "py_round (fl q) = 0"
        by (rule py_round_unique)
      moreover from b have "py_round q = 0"
        by (rule py_round_unique)
      ultimately show ?thesis by (simp add: k_def)
    next
      case normal
      define E where "E = (2::rat) powi fl_exp q"
      have E: "0 < E" by (simp add: E_def)
      from normal(2) have "E * 2 ^ 52 * N \<le> \<bar>q\<bar> * N"
        using N by (simp add: E_def)
      with absq S have "E * 2 ^ 52 * N < 2 ^ 52"
        by simp
      then have EN: "E * N < 1"
        by simp
      from fl_error[of q] have err: "\<bar>fl q - q\<bar> * 2 \<le> E"
        by (simp add: E_def)
      show ?thesis
      proof (cases "q - of_int \<lfloor>q\<rfloor> = 1 / 2")
        case True
        define m where "m = 2 * \<lfloor>q\<rfloor> + 1"
        from True have qm: "q = of_int m * 2 powi (- 1)"
          by (simp add: m_def power_int_minus_divide field_simps)
        have "\<bar>q\<bar> \<le> \<bar>q\<bar> * N"
          using N by (simp add: mult_le_cancel_left1)
        with absq S have "\<bar>q\<bar> < 2 ^ 52"
          by simp
        moreover have "(of_int \<bar>m\<bar> :: rat) = 2 * \<bar>q\<bar>"
          by (simp add: qm power_int_minus_divide abs_mult)
        ultimately have "(of_int \<bar>m\<bar> :: rat) < of_int (2 ^ 53)"
          by simp
        then have "\<bar>m\<bar> < 2 ^ 53"
          unfolding of_int_less_iff .
        with qm have "fl q = q"
          by (intro fl_exact[of q m "- 1"]) simp_all
        then show ?thesis by (simp add: k_def)
      next
        case False
        then have near: "\<bar>of_int k - q\<bar> < 1 / 2"
          unfolding k_def by (rule py_round_strict)
        define t where "t = s - k * n"
        have t: "(of_int k - q) * N = - of_int t"
          using qN by (simp add: t_def algebra_simps N_def)
        have "\<bar>of_int k - q\<bar> * N = \<bar>of_int t :: rat\<bar>"
          using t N by (metis abs_minus abs_mult abs_of_pos)
        moreover from near N have "\<bar>of_int k - q\<bar> * N < 1 / 2 * N"
          by (intro mult_strict_right_mono)
        ultimately have "\<bar>of_int t :: rat\<bar> * 2 < N"
          by simp
        then have "(of_int (\<bar>t\<bar> * 2) :: rat) < of_int n"
          by (simp add: N_def)
        then have "\<bar>t\<bar> * 2 < n"
          unfolding of_int_less_iff .
        then have "\<bar>t\<bar> * 2 + 1 \<le> n"
          by simp
        then have "(of_int (\<bar>t\<bar> * 2 + 1) :: rat) \<le> of_int n"
          unfolding of_int_le_iff .
        then have gap: "\<bar>of_int k - q\<bar> * N * 2 + 1 \<le> N"
          using \<open>\<bar>of_int k - q\<bar> * N = \<bar>of_int t :: rat\<bar>\<close> by (simp add: N_def)
        have "\<bar>fl q - of_int k\<bar> \<le> \<bar>fl q - q\<bar> + \<bar>of_int k - q\<bar>"
          by linarith
        then have "\<bar>fl q - of_int k\<bar> * (2 * N) \<le> (\<bar>fl q - q\<bar> + \<bar>of_int k - q\<bar>) * (2 * N)"
          using N by (intro mult_right_mono) simp_all
        also have "\<dots> = \<bar>fl q - q\<bar> * 2 * N + \<bar>of_int k - q\<bar> * N * 2"
          by (simp add: algebra_simps)
        also have "\<dots> \<le> E * N + \<bar>of_int k - q\<bar> * N * 2"
          using err N by (simp add: mult_right_mono)
        also have "\<dots> < 1 + \<bar>of_int k - q\<bar> * N * 2"
          using EN by simp
        also have "\<dots> \<le> N"
          using gap by simp
        finally have "\<bar>fl q - of_int k\<bar> * 2 < 1"
          using N by simp
        then have "\<bar>fl q - of_int k\<bar> < 1 / 2"
          by simp
        then show ?thesis
          by (rule py_round_unique)
      qed
    qed
  qed
  then show ?thesis
    by (simp add: k_def q_def)
qed



lemma fl_abs_le: "\<bar>fl x\<bar> \<le> 2 * \<bar>x\<bar> + 1"
proof (cases "x = 0")
  case True
  then show ?thesis by simp
next
  case False
  then show ?thesis
  proof (cases rule: fl_exp_cases)
    case normal
    have "(2::rat) powi fl_exp x * 1 \<le> 2 powi fl_exp x * 2 ^ 52"
      by (intro mult_left_mono) simp_all
    with normal(2) fl_error[of x] show ?thesis
      by linarith
  next
    case subnormal
    from fl_error[of x] subnormal(1) have "\<bar>fl x - x\<bar> \<le> 2 powi (- 1074) / 2"
      by simp
    with powi_small(2) show ?thesis
      by linarith
  qed
qed



lemma fl_exp_eq:
  assumes "x \<noteq> 0" and "- 1074 \<le> e" and "2 powi (e + 52) \<le> \<bar>x\<bar>" and "\<bar>x\<bar> < 2 powi (e + 53)"
  shows "fl_exp x = e"
proof -
  from assms(3) have "e + 52 \<le> ilog2 x"
    by (rule ilog2_ge)
  moreover from assms(1,4) have "ilog2 x < e + 53"
    by (rule ilog2_less)
  ultimately have "ilog2 x = e + 52"
    by simp
  with assms(2) show ?thesis
    by (simp add: fl_exp_def)
qed

lemma fl_evalI:
  assumes "- 1074 \<le> e" and "2 ^ 52 * 2 powi e \<le> \<bar>x\<bar>" and "\<bar>x\<bar> < 2 ^ 53 * 2 powi e"
    and "\<bar>x / 2 powi e - of_int m\<bar> < 1 / 2"
  shows "fl x = of_int m * 2 powi e"
proof -
  have "0 < (2::rat) ^ 52 * 2 powi e"
    by simp
  with assms(2) have "0 < \<bar>x\<bar>"
    by linarith
  then have x: "x \<noteq> 0"
    by simp
  have "(2::rat) powi (e + 52) = 2 ^ 52 * 2 powi e" "(2::rat) powi (e + 53) = 2 ^ 53 * 2 powi e"
    by (simp_all add: power_int_add)
  with assms(2,3) have "2 powi (e + 52) \<le> \<bar>x\<bar>" "\<bar>x\<bar> < 2 powi (e + 53)"
    by simp_all
  with x assms(1) have "fl_exp x = e"
    by (intro fl_exp_eq)
  moreover from assms(4) have "py_round (x / 2 powi e) = m"
    by (rule py_round_unique)
  ultimately show ?thesis
    using x by (simp add: fl_def)
qed


lemma fl_roundI:
  assumes "- 1074 \<le> e" and "2 ^ 52 * 2 powi e \<le> \<bar>x\<bar>" and "\<bar>x\<bar> < 2 ^ 53 * 2 powi e"
    and "py_round (x / 2 powi e) = m"
  shows "fl x = of_int m * 2 powi e"
proof -
  have "0 < (2::rat) ^ 52 * 2 powi e"
    by simp
  with assms(2) have "0 < \<bar>x\<bar>"
    by linarith
  then have x: "x \<noteq> 0"
    by simp
  have "(2::rat) powi (e + 52) = 2 ^ 52 * 2 powi e" "(2::rat) powi (e + 53) = 2 ^ 53 * 2 powi e"
    by (simp_all add: power_int_add)
  with assms(2,3) have "2 powi (e + 52) \<le> \<bar>x\<bar>" "\<bar>x\<bar> < 2 powi (e + 53)"
    by simp_all
  with x assms(1) have "fl_exp x = e"
    by (intro fl_exp_eq)
  with assms(4) x show ?thesis
    by (simp add: fl_def)
qed

lemma max_double_ge: "2 ^ 70 \<le> max_double"
  by (simp add: max_double_def)

lemma to_double_small:
  assumes "\<bar>x\<bar> \<le> 2 ^ 60"
  shows "to_double x = Finite (fl x)"
proof -
  from fl_abs_le[of x] assms have "\<bar>fl x\<bar> \<le> 2 ^ 70"
    by simp
  with max_double_ge have "\<bar>fl x\<bar> \<le> max_double"
    by linarith
  then show ?thesis
    by (auto simp: to_double_def)
qed

lemma to_double_zero [simp]: "to_double 0 = Finite 0"
  by (simp add: to_double_small)

lemma int_to_float_small:
  assumes "\<bar>i\<bar> < 2 ^ 53"
  shows "int_to_float i = Inr (Finite (of_int i))"
proof -
  have "(of_int \<bar>i\<bar> :: rat) < of_int (2 ^ 53)"
    using assms unfolding of_int_less_iff .
  then have "\<bar>of_int i :: rat\<bar> \<le> 2 ^ 60"
    by simp
  then have "to_double (of_int i) = Finite (fl (of_int i))"
    by (rule to_double_small)
  with fl_of_int[OF assms] show ?thesis
    by (simp add: int_to_float_def)
qed

lemma int_to_float_4 [simp]: "int_to_float 4 = Inr (Finite 4)"
  using int_to_float_small[of 4] by simp

lemma int_to_float_100 [simp]: "int_to_float 100 = Inr (Finite 100)"
  using int_to_float_small[of 100] by simp



lemma fl_4 [simp]: "fl 4 = 4"
  using fl_of_int[of 4] by simp

lemma fl_1 [simp]: "fl 1 = 1"
  using fl_of_int[of 1] by simp

lemma fl_100 [simp]: "fl 100 = 100"
  using fl_of_int[of 100] by simp


subsection \<open>The growth score of an average given in tenths\<close>

lemma growth_step:
  assumes "fl x = a" and "fl (a / 4) = b" and "fl (b * 100) = y"
    and "\<bar>x\<bar> \<le> 2 ^ 60" and "\<bar>a / 4\<bar> \<le> 2 ^ 60" and "\<bar>b * 100\<bar> \<le> 2 ^ 60"
    and "0 < y" and "y < 100"
  shows "growth_value (PyFloat (to_double x)) = Inr \<lfloor>y\<rfloor>"
proof -
  have 1: "to_double x = Finite a"
    using to_double_small[OF assms(4)] assms(1) by simp
  have 2: "to_double (a / 4) = Finite b"
    using to_double_small[OF assms(5)] assms(2) by simp
  have 3: "to_double (b * 100) = Finite y"
    using to_double_small[OF assms(6)] assms(3) by simp
  from assms(7,8) show ?thesis
    by (simp add: growth_value_def growth_score_of_def 1 2 3 py_mul_int_def py_max_num_def
        py_min_num_def py_int_def)
qed


























lemma tenth_growth_25: "tenth_growth 25 = Inr 62"
proof -
  have a: "fl (25 / 10) = 5 / 2"
    using fl_evalI[of "- 51" "25 / 10" 5629499534213120] by (simp add: power_int_minus_divide)
  have b: "fl (5 / 2 / 4) = 5 / 8"
    using fl_evalI[of "- 53" "5 / 2 / 4" 5629499534213120] by (simp add: power_int_minus_divide)
  have c: "fl (5 / 8 * 100) = 125 / 2"
    using fl_evalI[of "- 47" "5 / 8 * 100" 8796093022208000] by (simp add: power_int_minus_divide)
  have "growth_value (PyFloat (to_double (25 / 10))) = Inr \<lfloor>125 / 2 :: rat\<rfloor>"
    using a b c by (rule growth_step) simp_all
  then show ?thesis
    by (simp add: tenth_growth_def)
qed


lemma tenth_growth_27: "tenth_growth 27 = Inr 67"
proof -
  have a: "fl (27 / 10) = 3039929748475085 / 1125899906842624"
    using fl_evalI[of "- 51" "27 / 10" 6079859496950170] by (simp add: power_int_minus_divide)
  have b: "fl (3039929748475085 / 1125899906842624 / 4) = 3039929748475085 / 4503599627370496"
    using fl_evalI[of "- 53" "3039929748475085 / 1125899906842624 / 4" 6079859496950170] by (simp add: power_int_minus_divide)
  have c: "fl (3039929748475085 / 4503599627370496 * 100) = 135 / 2"
    using fl_evalI[of "- 46" "3039929748475085 / 4503599627370496 * 100" 4749890231992320] by (simp add: power_int_minus_divide)
  have "growth_value (PyFloat (to_double (27 / 10))) = Inr \<lfloor>135 / 2 :: rat\<rfloor>"
    using a b c by (rule growth_step) simp_all
  then show ?thesis
    by (simp add: tenth_growth_def)
qed

















section \<open>The code against the specification's formulas\<close>

subsection \<open>Lookups\<close>

lemma py_get_JObj [simp]:
  "py_get (JObj kvs) k d = Inr (case map_of kvs k of None \<Rightarrow> d | Some w \<Rightarrow> w)"
  by (simp add: py_get_def)

lemma py_get_Inr_dict: "py_get p k d = Inr v \<Longrightarrow> \<exists>kvs. p = JObj kvs"
  by (cases p) (simp_all add: py_get_def)

lemma field_JObj [simp]: "field (JObj kvs) k = map_of kvs k"
  by (simp add: field_def)

lemma is_dict_JObj: "is_dict p \<Longrightarrow> \<exists>kvs. p = JObj kvs"
  by (cases p) (simp_all add: is_dict_def)

lemma map_filter_Nil [simp]: "List.map_filter f [] = []"
  by (simp add: List.map_filter_simps)

lemma map_filter_Cons:
  "List.map_filter f (x # xs) =
     (case f x of None \<Rightarrow> List.map_filter f xs | Some y \<Rightarrow> y # List.map_filter f xs)"
  by (simp add: List.map_filter_simps)


lemma rat_of_int_sum_list: "(of_int (sum_list xs) :: rat) = sum_list (map of_int xs)"
  by (induction xs) simp_all

lemma nearest_integer_py_round: "nearest_integer (py_round x) x"
proof -
  have f: "of_int \<lfloor>x\<rfloor> \<le> x" "x < of_int \<lfloor>x\<rfloor> + 1"
    by linarith+
  have "\<bar>of_int (py_round x) - x\<bar> = 1 / 2 \<Longrightarrow> even (py_round x)"
    using f by (auto simp: py_round_def split: if_splits)
  with py_round_nearest[of x] show ?thesis
    by (simp add: nearest_integer_def)
qed

subsection \<open>Sums and means of integers\<close>

lemma py_sum_from_ints:
  "py_sum_from (PyInt acc) (map JInt xs) = Inr (PyInt (acc + sum_list xs))"
  by (induction xs arbitrary: acc) (simp_all add: algebra_simps)

lemma py_sum_ints: "py_sum (map JInt xs) = Inr (PyInt (sum_list xs))"
  by (simp add: py_sum_def py_sum_from_ints)

lemma py_truediv_int:
  assumes "\<bar>a\<bar> < 2 ^ 52" and "0 < b"
  shows "py_truediv (PyInt a) b = Inr (Finite (fl (of_int a / of_int b)))"
proof -
  have "(of_int \<bar>a\<bar> :: rat) < of_int (2 ^ 52)"
    using assms(1) unfolding of_int_less_iff .
  then have a: "\<bar>of_int a :: rat\<bar> < 2 ^ 52"
    by simp
  have "(1::rat) \<le> of_int b"
    using assms(2) by simp
  then have "\<bar>of_int a / of_int b :: rat\<bar> \<le> \<bar>of_int a\<bar>"
    by (simp add: divide_le_eq mult_le_cancel_left1)
  with a have "\<bar>of_int a / of_int b :: rat\<bar> \<le> 2 ^ 60"
    by simp
  then have "to_double (of_int a / of_int b) = Finite (fl (of_int a / of_int b))"
    by (rule to_double_small)
  with assms(2) show ?thesis
    by simp
qed

lemma mean_or_zero_ints:
  assumes "xs \<noteq> []" and "\<bar>sum_list xs\<bar> < 2 ^ 52"
  shows "mean_or_zero (map JInt xs)
           = Inr (PyFloat (Finite (fl (of_int (sum_list xs) / of_int (int (length xs))))))"
proof -
  from assms(1) have "0 < int (length xs)"
    by simp
  with assms(2) have "py_truediv (PyInt (sum_list xs)) (int (length xs))
      = Inr (Finite (fl (of_int (sum_list xs) / of_int (int (length xs)))))"
    by (rule py_truediv_int)
  with assms(1) show ?thesis
    by (simp add: mean_or_zero_def py_sum_ints)
qed

lemma spec_average_ints:
  "spec_average (map of_int xs) = of_int (sum_list xs) / of_int (int (length xs))"
  by (simp add: spec_average_def rat_of_int_sum_list)

text \<open>
  The average price of integer prices whose sum is below \<open>2\<^sup>5\<^sup>2\<close> in magnitude is the
  exact mean rounded to the nearest integer.
\<close>

lemma avg_price_of_ints:
  assumes "xs \<noteq> []" and "\<bar>sum_list xs\<bar> < 2 ^ 52"
  shows "py_bind (mean_or_zero (map JInt xs)) py_round_num
           = Inr (py_round (spec_average (map of_int xs)))"
proof -
  from assms(1) have "0 < int (length xs)"
    by simp
  with assms(2) have "py_round (fl (of_int (sum_list xs) / of_int (int (length xs))))
      = py_round (of_int (sum_list xs) / of_int (int (length xs)))"
    by (rule round_fl_quotient)
  then show ?thesis
    by (simp add: mean_or_zero_ints[OF assms] spec_average_ints)
qed


subsection \<open>Prices\<close>

lemma sale_prices_dict:
  "sale_prices (JObj kvs # ps) =
     py_bind (sale_prices ps) (\<lambda>rest.
       Inr ((case map_of kvs ''price'' of
               None \<Rightarrow> [] | Some w \<Rightarrow> if w = JNull then [] else [w]) @ rest))"
  by (simp split: option.splits)

lemma sale_prices_Inr_Cons:
  assumes "sale_prices (p # ps) = Inr vs"
  obtains kvs rest where "p = JObj kvs" "sale_prices ps = Inr rest"
    "vs = (case map_of kvs ''price'' of
             None \<Rightarrow> [] | Some w \<Rightarrow> if w = JNull then [] else [w]) @ rest"
proof -
  from assms obtain c where "py_get p ''price'' JNull = Inr c"
    by (auto simp: py_bind_eq_Inr)
  then obtain kvs where p: "p = JObj kvs"
    using py_get_Inr_dict by blast
  with assms obtain rest where "sale_prices ps = Inr rest"
    "vs = (case map_of kvs ''price'' of
             None \<Rightarrow> [] | Some w \<Rightarrow> if w = JNull then [] else [w]) @ rest"
    unfolding p sale_prices_dict by (auto simp: py_bind_eq_Inr)
  with p that show thesis by blast
qed

lemma sale_prices_length:
  "sale_prices ps = Inr vs \<Longrightarrow> length vs = length (filter price_present ps)"
proof (induction ps arbitrary: vs)
  case Nil
  then show ?case by simp
next
  case (Cons p ps)
  from Cons.prems obtain kvs rest where p: "p = JObj kvs"
    and rest: "sale_prices ps = Inr rest"
    and vs: "vs = (case map_of kvs ''price'' of
                     None \<Rightarrow> [] | Some w \<Rightarrow> if w = JNull then [] else [w]) @ rest"
    by (rule sale_prices_Inr_Cons)
  from Cons.IH[OF rest] vs p show ?case
    by (simp add: price_present_def split: option.splits)
qed

lemma null_or_int_cases:
  assumes "null_or_int v"
  obtains "v = JNull" | i where "v = JInt i"
  using assms by (cases v) (simp_all add: null_or_int_def)

lemma spec_price_JObj:
  "spec_price (JObj kvs) =
     (case map_of kvs ''price'' of
        None \<Rightarrow> None
      | Some v \<Rightarrow> (case v of JInt i \<Rightarrow> Some i | _ \<Rightarrow> None))"
  by (simp add: spec_price_def)

lemma sale_prices_ints:
  "sale_prices ps = Inr vs \<Longrightarrow> \<forall>p\<in>set ps. integer_price p \<Longrightarrow>
     vs = map JInt (List.map_filter spec_price ps)"
proof (induction ps arbitrary: vs)
  case Nil
  then show ?case by simp
next
  case (Cons p ps)
  from Cons.prems(1) obtain kvs rest where p: "p = JObj kvs"
    and rest: "sale_prices ps = Inr rest"
    and vs: "vs = (case map_of kvs ''price'' of
                     None \<Rightarrow> [] | Some w \<Rightarrow> if w = JNull then [] else [w]) @ rest"
    by (rule sale_prices_Inr_Cons)
  from Cons.prems(2) have ih: "rest = map JInt (List.map_filter spec_price ps)"
    by (intro Cons.IH[OF rest]) simp
  show ?case
  proof (cases "map_of kvs ''price''")
    case None
    with ih vs p show ?thesis
      by (simp add: map_filter_Cons spec_price_JObj)
  next
    case (Some w)
    with Cons.prems(2) p have "null_or_int w"
      by (simp add: integer_price_def)
    then show ?thesis
    proof (cases rule: null_or_int_cases)
      case 1
      with Some ih vs p show ?thesis
        by (simp add: map_filter_Cons spec_price_JObj)
    next
      case (2 i)
      with Some ih vs p show ?thesis
        by (simp add: map_filter_Cons spec_price_JObj)
    qed
  qed
qed

subsection \<open>Days on market\<close>

lemma dom_list_dict:
  assumes "strptime [] = None"
  shows "dom_list strptime today (JObj kvs # ps) =
     py_bind (dom_list strptime today ps) (\<lambda>rest.
       Inr (case spec_days_on_market strptime today (JObj kvs) of
              None \<Rightarrow> rest | Some d \<Rightarrow> d # rest))"
proof (cases "map_of kvs ''listing_date''")
  case None
  then show ?thesis by (simp add: spec_days_on_market_def)
next
  case (Some v)
  with assms show ?thesis
    by (cases v; cases "dom_list strptime today ps")
       (simp_all add: spec_days_on_market_def split: option.splits)
qed

lemma dom_list_Inr_Cons:
  assumes "dom_list strptime today (p # ps) = Inr ds" and "strptime [] = None"
  obtains rest where "dom_list strptime today ps = Inr rest"
    "ds = (case spec_days_on_market strptime today p of None \<Rightarrow> rest | Some d \<Rightarrow> d # rest)"
proof -
  from assms(1) obtain c where "py_get p ''listing_date'' JNull = Inr c"
    by (auto simp: py_bind_eq_Inr)
  then obtain kvs where p: "p = JObj kvs"
    using py_get_Inr_dict by blast
  have "dom_list strptime today (JObj kvs # ps) =
     py_bind (dom_list strptime today ps) (\<lambda>rest.
       Inr (case spec_days_on_market strptime today (JObj kvs) of
              None \<Rightarrow> rest | Some d \<Rightarrow> d # rest))"
    using assms(2) by (rule dom_list_dict)
  with assms(1) p obtain rest where "dom_list strptime today ps = Inr rest"
    "ds = (case spec_days_on_market strptime today p of None \<Rightarrow> rest | Some d \<Rightarrow> d # rest)"
    by (auto simp: py_bind_eq_Inr)
  with that show thesis by blast
qed

lemma dom_list_spec:
  "dom_list strptime today ps = Inr ds \<Longrightarrow> strptime [] = None \<Longrightarrow>
     ds = List.map_filter (spec_days_on_market strptime today) ps"
proof (induction ps arbitrary: ds)
  case Nil
  then show ?case by simp
next
  case (Cons p ps)
  from Cons.prems obtain rest where rest: "dom_list strptime today ps = Inr rest"
    and ds: "ds = (case spec_days_on_market strptime today p of
                     None \<Rightarrow> rest | Some d \<Rightarrow> d # rest)"
    by (rule dom_list_Inr_Cons)
  from Cons.IH[OF rest Cons.prems(2)] ds show ?case
    by (simp add: map_filter_Cons split: option.splits)
qed

text \<open>On a list of mappings the date loop cannot raise, whatever the dates are.\<close>

lemma dom_list_total:
  "\<forall>p\<in>set ps. is_dict p \<Longrightarrow> \<exists>ds. dom_list strptime today ps = Inr ds"
proof (induction ps)
  case Nil
  then show ?case by simp
next
  case (Cons p ps)
  then obtain ds where "dom_list strptime today ps = Inr ds"
    by auto
  moreover from Cons.prems obtain kvs where "p = JObj kvs"
    using is_dict_JObj by auto
  ultimately show ?case by simp
qed

lemma dom_list_dicts:
  assumes "\<forall>p\<in>set ps. is_dict p" and "strptime [] = None"
  shows "dom_list strptime today ps
           = Inr (List.map_filter (spec_days_on_market strptime today) ps)"
proof -
  from dom_list_total[OF assms(1)] obtain ds where ds: "dom_list strptime today ps = Inr ds"
    by blast
  from dom_list_spec[OF ds assms(2)] ds show ?thesis
    by simp
qed

lemma sale_prices_is_dict: "sale_prices ps = Inr vs \<Longrightarrow> \<forall>p\<in>set ps. is_dict p"
proof (induction ps arbitrary: vs)
  case Nil
  then show ?case by simp
next
  case (Cons p ps)
  from Cons.prems obtain kvs rest where p: "p = JObj kvs" and rest: "sale_prices ps = Inr rest"
    by (rule sale_prices_Inr_Cons)
  from Cons.IH[OF rest] p show ?case
    by (simp add: is_dict_def)
qed

subsection \<open>Bedrooms\<close>





subsection \<open>Clean records pass the three loops\<close>




lemma clean_record_parts:
  "clean_record p \<Longrightarrow> is_dict p \<and> integer_price p \<and> integer_bedrooms p"
  by (cases p) (simp_all add: clean_record_def is_dict_def)

subsection \<open>Clamping and truncation\<close>


lemma py_int_clamp_range:
  "0 \<le> py_int (py_max 0 (py_min 100 x)) \<and> py_int (py_max 0 (py_min 100 x)) \<le> 100"
proof -
  have "0 \<le> py_max 0 (py_min 100 x)" and "py_max 0 (py_min 100 x) \<le> 100"
    by (simp_all add: py_max_def py_min_def)
  then show ?thesis
    by (simp add: py_int_def floor_le_iff le_floor_iff)
qed

lemma clamp_num_range:
  assumes "py_int_num (py_max_num (PyInt 0) (py_min_num (PyInt 100) (PyFloat y))) = Inr v"
  shows "0 \<le> v \<and> v \<le> 100"
proof (cases y)
  case (Finite b)
  show ?thesis
  proof (cases "b < 100")
    case True
    show ?thesis
    proof (cases "0 < b")
      case pos: True
      with True Finite assms have v: "v = \<lfloor>b\<rfloor>"
        by (simp add: py_max_num_def py_min_num_def py_int_def)
      from pos True have "0 \<le> \<lfloor>b\<rfloor>" "\<lfloor>b\<rfloor> \<le> 100"
        by (simp_all add: floor_le_iff le_floor_iff)
      with v show ?thesis by simp
    next
      case False
      with True Finite assms show ?thesis
        by (simp add: py_max_num_def py_min_num_def)
    qed
  next
    case False
    with Finite assms show ?thesis
      by (simp add: py_max_num_def py_min_num_def)
  qed
next
  case PosInf
  with assms show ?thesis
    by (simp add: py_max_num_def py_min_num_def)
next
  case NegInf
  with assms show ?thesis
    by (simp add: py_max_num_def py_min_num_def)
next
  case NaN
  with assms show ?thesis
    by (simp add: py_max_num_def py_min_num_def)
qed

lemma growth_value_range:
  assumes "growth_value avg = Inr v"
  shows "0 \<le> v \<and> v \<le> 100"
proof -
  from assms obtain g where g: "growth_score_of avg = Inr g" and v: "py_int_num g = Inr v"
    by (auto simp: growth_value_def py_bind_eq_Inr)
  from g obtain y where "g = py_max_num (PyInt 0) (py_min_num (PyInt 100) (PyFloat y))"
    by (auto simp: growth_score_of_def py_bind_eq_Inr)
  with v show ?thesis
    using clamp_num_range by blast
qed

subsection \<open>The shape of a returned analysis\<close>

lemma analyze_property_data_Some:
  assumes "analyze_property_data strptime today data = Inr (Some a)"
  obtains kvs ps vs m ds bs mb where
    "data = JObj kvs" "map_of kvs ''results'' = Some (JArr ps)" "ps \<noteq> []"
    "sale_prices ps = Inr vs"
    "mean_or_zero vs = Inr m"
    "py_round_num m = Inr (avg_sale_price (summary a))"
    "dom_list strptime today ps = Inr ds"
    "bedrooms ps = Inr bs"
    "mean_or_zero bs = Inr mb"
    "avg_bedrooms (summary a) = py_round1_num mb"
    "growth_value (py_round1_num mb) = Inr (score_value (family_growth_potential (scorecard a)))"
    "total_listings (summary a) = length ps"
    "avg_days_on_market (summary a) =
       py_round (if ds \<noteq> [] then of_int (sum_list ds) / of_nat (length ds) else 0)"
    "score_value (liquidity_risk (scorecard a)) =
       py_int (py_max 0 (py_min 100
         (100 - (of_int (avg_days_on_market (summary a)) - 20) * (3 / 2))))"
    "raw_properties a = take 5 ps"
proof -
  from assms obtain properties n where g: "py_get data ''results'' (JArr []) = Inr properties"
    and l: "py_len properties = Inr n"
    unfolding analyze_property_data_def by (auto simp: py_bind_eq_Inr)
  from g obtain kvs where data: "data = JObj kvs"
    using py_get_Inr_dict by blast
  from assms g l have t: "truthy properties"
    unfolding analyze_property_data_def by (auto split: if_splits)
  from assms g l t obtain ps where props: "properties = JArr ps"
    unfolding analyze_property_data_def by (cases properties) simp_all
  from t props have ne: "ps \<noteq> []" by simp
  from l props have n: "n = length ps" by (simp add: py_len_def)
  from g data props ne have res: "map_of kvs ''results'' = Some (JArr ps)"
    by (auto split: option.splits)
  from assms g l t props have
    "py_bind (sale_prices ps) (\<lambda>prices.
     py_bind (mean_or_zero prices) (\<lambda>mean_price.
     py_bind (py_round_num mean_price) (\<lambda>avg_price.
     py_bind (dom_list strptime today ps) (\<lambda>doms.
     py_bind (bedrooms ps) (\<lambda>beds.
     py_bind (mean_or_zero beds) (\<lambda>mean_beds.
     py_bind (growth_value (py_round1_num mean_beds)) (\<lambda>growth.
       let avg_dom = py_round (if doms \<noteq> []
                               then of_int (sum_list doms) / of_nat (length doms)
                               else 0);
           risk_score = py_max 0 (py_min 100 (100 - (of_int avg_dom - 20) * (3 / 2)))
       in Inr (Some
            \<lparr>summary =
               \<lparr>total_listings = n,
                avg_sale_price = avg_price,
                avg_days_on_market = avg_dom,
                avg_bedrooms = py_round1_num mean_beds\<rparr>,
             scorecard =
               \<lparr>liquidity_risk =
                  \<lparr>label = ''Liquidity Risk Score'',
                   score_value = py_int risk_score,
                   explanation = risk_explanation\<rparr>,
                family_growth_potential =
                  \<lparr>label = ''Family Growth Potential'',
                   score_value = growth,
                   explanation = growth_explanation\<rparr>\<rparr>,
             raw_properties = take 5 ps\<rparr>)))))))) = Inr (Some a)"
    unfolding analyze_property_data_def by simp
  then obtain vs m k ds bs mb gv where
    vs: "sale_prices ps = Inr vs"
    and m: "mean_or_zero vs = Inr m"
    and k: "py_round_num m = Inr k"
    and ds: "dom_list strptime today ps = Inr ds"
    and bs: "bedrooms ps = Inr bs"
    and mb: "mean_or_zero bs = Inr mb"
    and gv: "growth_value (py_round1_num mb) = Inr gv"
    and a: "a =
       \<lparr>summary =
          \<lparr>total_listings = n,
           avg_sale_price = k,
           avg_days_on_market =
             py_round (if ds \<noteq> [] then of_int (sum_list ds) / of_nat (length ds) else 0),
           avg_bedrooms = py_round1_num mb\<rparr>,
        scorecard =
          \<lparr>liquidity_risk =
             \<lparr>label = ''Liquidity Risk Score'',
              score_value = py_int (py_max 0 (py_min 100
                (100 - (of_int (py_round (if ds \<noteq> []
                     then of_int (sum_list ds) / of_nat (length ds) else 0)) - 20) * (3 / 2)))),
              explanation = risk_explanation\<rparr>,
           family_growth_potential =
             \<lparr>label = ''Family Growth Potential'',
              score_value = gv,
              explanation = growth_explanation\<rparr>\<rparr>,
        raw_properties = take 5 ps\<rparr>"
    unfolding py_bind_eq_Inr Let_def by blast
  show thesis
    by (rule that[OF data res ne vs m _ ds bs mb]) (simp_all add: a n k gv)
qed


subsection \<open>Evaluating the examples\<close>

lemma to_double_exact:
  assumes "x = of_int m * 2 powi e" and "\<bar>m\<bar> < 2 ^ 53" and "- 1074 \<le> e" and "\<bar>x\<bar> \<le> 2 ^ 60"
  shows "to_double x = Finite x"
  using to_double_small[OF assms(4)] fl_exact[OF assms(1-3)] by simp

lemmas strptime_ymd_defs =
  strptime_ymd_def is_digit_def digit_val_def ymd_to_ordinal_def days_in_month_def
  days_before_year_def days_before_month_def is_leap_def

lemma strptime_ymd_empty: "strptime_ymd [] = None"
  by (simp add: strptime_ymd_def)

lemma example_dates:
  "strptime_ymd ''2025-10-05'' = Some 739529"
  "strptime_ymd ''2025-09-01'' = Some 739495"
  "strptime_ymd ''2025-08-29'' = Some 739492"
  "strptime_ymd ''not a date'' = None"
  "strptime_ymd ''soon'' = None"
  by (simp_all add: strptime_ymd_defs)

lemma example_sale_prices:
  "sale_prices example_results =
     Inr [JInt 500000, JInt 600000, JInt 0, JFloat (Finite (500001 / 2))]"
  by (simp add: example_results_def sale_prices_dict)

lemma example_mean_price:
  "mean_or_zero [JInt 500000, JInt 600000, JInt 0, JFloat (Finite (500001 / 2))]
     = Inr (PyFloat (Finite (2700001 / 8)))"
proof -
  have a: "int_to_float 1100000 = Inr (Finite 1100000)"
    using int_to_float_small[of 1100000] by simp
  have b: "to_double (2700001 / 2) = Finite (2700001 / 2)"
    using to_double_exact[of "2700001 / 2" 2700001 "- 1"] by (simp add: power_int_minus_divide)
  have c: "to_double (2700001 / 8) = Finite (2700001 / 8)"
    using to_double_exact[of "2700001 / 8" 2700001 "- 3"] by (simp add: power_int_minus_divide)
  show ?thesis
    by (simp add: mean_or_zero_def py_sum_def a b c)
qed

lemma example_dom_list:
  "dom_list strptime_ymd example_today example_results = Inr [30, 64]"
  by (simp add: example_results_def example_today_def example_dates)

lemma example_bedrooms: "bedrooms example_results = Inr [JInt 3, JInt 2]"
  by (simp add: example_results_def)

lemma to_double_5_2: "to_double (5 / 2) = Finite (5 / 2)"
  using to_double_exact[of "5 / 2" 5 "- 1"] by (simp add: power_int_minus_divide)

lemma example_mean_beds: "mean_or_zero [JInt 3, JInt 2] = Inr (PyFloat (Finite (5 / 2)))"
proof -
  have "fl (5 / 2) = 5 / 2"
    using fl_exact[of "5 / 2" 5 "- 1"] by (simp add: power_int_minus_divide)
  with mean_or_zero_ints[of "[3, 2]"] show ?thesis
    by simp
qed

lemma example_growth: "growth_value (PyFloat (Finite (5 / 2))) = Inr 62"
  using tenth_growth_25 by (simp add: tenth_growth_def to_double_5_2)

lemma example_run:
  "analyze_property_data strptime_ymd example_today example_payload = Inr (Some example_analysis)"
  by (simp add: analyze_property_data_def example_payload_def py_len_def
      example_sale_prices example_mean_price example_dom_list example_bedrooms
      example_mean_beds to_double_5_2 example_growth example_analysis_def
      py_round_def py_int_def py_max_def py_min_def)
     (simp add: example_results_def)

lemma mixed_prices: "List.map_filter spec_price mixed_results = [450000, 520000, 520003]"
  by (simp add: mixed_results_def map_filter_Cons spec_price_JObj)

lemma mixed_days:
  "List.map_filter (spec_days_on_market strptime_ymd example_today) mixed_results = [30, 64, 67]"
  by (simp add: mixed_results_def map_filter_Cons spec_days_on_market_def example_dates
      example_today_def)


lemma mixed_clean: "\<forall>p\<in>set mixed_results. clean_record p"
  by (simp add: mixed_results_def clean_record_def integer_price_def integer_bedrooms_def
      null_or_int_def)

lemma mixed_sale_prices:
  "sale_prices mixed_results = Inr (map JInt [450000, 520000, 520003])"
  by (simp add: mixed_results_def sale_prices_dict)

lemma mixed_dom_list:
  "dom_list strptime_ymd example_today mixed_results = Inr [30, 64, 67]"
  by (simp add: mixed_results_def example_today_def example_dates)

lemma mixed_bedrooms_list: "bedrooms mixed_results = Inr (map JInt [3, 2, 3])"
  by (simp add: mixed_results_def)

lemma mixed_avg_price:
  "py_bind (mean_or_zero (map JInt [450000, 520000, 520003])) py_round_num = Inr 496668"
  using avg_price_of_ints[of "[450000, 520000, 520003]"]
  by (simp add: spec_average_def py_round_def)

lemma mixed_mean_beds:
  "mean_or_zero (map JInt [3, 2, 3])
     = Inr (PyFloat (Finite (6004799503160661 / 2251799813685248)))"
proof -
  have "fl (8 / 3) = 6004799503160661 / 2251799813685248"
    using fl_evalI[of "- 51" "8 / 3" 6004799503160661] by (simp add: power_int_minus_divide)
  with mean_or_zero_ints[of "[3, 2, 3]"] show ?thesis
    by simp
qed

lemma mixed_avg_beds:
  "py_round1_num (PyFloat (Finite (6004799503160661 / 2251799813685248)))
     = PyFloat (to_double (27 / 10))"
  by (simp add: py_round_def)

lemma mixed_growth: "growth_value (PyFloat (to_double (27 / 10))) = Inr 67"
  using tenth_growth_27 by (simp add: tenth_growth_def)

lemma mixed_run:
  "analyze_property_data strptime_ymd example_today mixed_payload = Inr (Some mixed_analysis)"
proof -
  from mixed_avg_price obtain m where m: "mean_or_zero (map JInt [450000, 520000, 520003]) = Inr m"
    and k: "py_round_num m = Inr 496668"
    by (auto simp: py_bind_eq_Inr)
  have len: "length mixed_results = 6" "mixed_results \<noteq> []"
    by (simp_all add: mixed_results_def)
  show ?thesis
    by (simp add: analyze_property_data_def mixed_payload_def py_len_def len
        mixed_sale_prices m k mixed_dom_list mixed_bedrooms_list
        mixed_mean_beds mixed_avg_beds mixed_growth mixed_analysis_def
        py_round_def py_int_def py_max_def py_min_def del: list.map)
qed

subsection \<open>The endpoint\<close>

lemma analyze_suburb_Inr:
  "suburb_name \<noteq> [] \<Longrightarrow> try_block strptime today requests_get suburb_name = Inr reply \<Longrightarrow>
     fst (analyze_suburb strptime today requests_get (Some suburb_name)) = reply"
  by (simp add: analyze_suburb_def)

lemma analyze_suburb_Inl:
  "suburb_name \<noteq> [] \<Longrightarrow> try_block strptime today requests_get suburb_name = Inl e \<Longrightarrow>
     fst (analyze_suburb strptime today requests_get (Some suburb_name))
       = except_clauses suburb_name e"
  by (simp add: analyze_suburb_def)

subsection \<open>The averages of a returned analysis\<close>

lemma growth_value_zero: "growth_value (PyInt 0) = Inr 0"
  by (simp add: growth_value_def growth_score_of_def py_mul_int_def py_max_num_def
      py_min_num_def)


text \<open>The average price and the average bedrooms of a returned analysis of integer values.\<close>

lemma avg_price_ints:
  assumes "analyze_property_data strptime today (JObj kvs) = Inr (Some a)"
    and "map_of kvs ''results'' = Some (JArr ps)"
    and "\<forall>p\<in>set ps. integer_price p"
    and "\<bar>sum_list (List.map_filter spec_price ps)\<bar> < 2 ^ 52"
  shows "List.map_filter spec_price ps = [] \<Longrightarrow> avg_sale_price (summary a) = 0"
    and "List.map_filter spec_price ps \<noteq> [] \<Longrightarrow>
           avg_sale_price (summary a)
             = py_round (spec_average (map of_int (List.map_filter spec_price ps)))"
    and "length (List.map_filter spec_price ps) = length (filter price_present ps)"
proof -
  from assms(1) obtain kvs' ps' vs m where
    "JObj kvs = JObj kvs'" "map_of kvs' ''results'' = Some (JArr ps')"
    and vs: "sale_prices ps' = Inr vs"
    and m: "mean_or_zero vs = Inr m"
    and avg: "py_round_num m = Inr (avg_sale_price (summary a))"
    by (rule analyze_property_data_Some) blast
  with assms(2) have ps: "ps' = ps" by simp
  from sale_prices_ints[OF vs] assms(3) ps
  have vs_eq: "vs = map JInt (List.map_filter spec_price ps)" by simp
  from m avg have b: "py_bind (mean_or_zero vs) py_round_num = Inr (avg_sale_price (summary a))"
    by simp
  show "avg_sale_price (summary a) = 0" if "List.map_filter spec_price ps = []"
    using that b by (simp add: vs_eq mean_or_zero_def)
  show "avg_sale_price (summary a)
          = py_round (spec_average (map of_int (List.map_filter spec_price ps)))"
    if "List.map_filter spec_price ps \<noteq> []"
    using avg_price_of_ints[OF that assms(4)] b by (simp add: vs_eq)
  from sale_prices_length[OF vs] ps show
    "length (List.map_filter spec_price ps) = length (filter price_present ps)"
    by (simp add: vs_eq)
qed


lemma avg_dom_days:
  assumes "analyze_property_data strptime today (JObj kvs) = Inr (Some a)"
    and "map_of kvs ''results'' = Some (JArr ps)"
    and "strptime [] = None"
  shows "avg_days_on_market (summary a) =
           (if List.map_filter (spec_days_on_market strptime today) ps = [] then 0
            else py_round (spec_average
                   (map of_int (List.map_filter (spec_days_on_market strptime today) ps))))"
proof -
  from assms(1) obtain kvs' ps' ds where
    "JObj kvs = JObj kvs'" "map_of kvs' ''results'' = Some (JArr ps')"
    and ds: "dom_list strptime today ps' = Inr ds"
    and avg: "avg_days_on_market (summary a) =
       py_round (if ds \<noteq> [] then of_int (sum_list ds) / of_nat (length ds) else 0)"
    by (rule analyze_property_data_Some) blast
  with assms(2) have ps: "ps' = ps" by simp
  from dom_list_spec[OF ds assms(3)] ps
  have ds_eq: "ds = List.map_filter (spec_days_on_market strptime today) ps" by simp
  show ?thesis
    unfolding avg ds_eq spec_average_def by (simp add: rat_of_int_sum_list)
qed

section \<open>The claims\<close>

text \<open>
  C1. For every payload with a non-empty \<open>results\<close> sequence, the \<open>liquidity_risk\<close> value
  and the \<open>family_growth_potential\<close> value of the returned scorecard are integers between
  0 and 100. The values have type \<open>int\<close>; the theorem covers every payload on which
  \<open>analyze_property_data\<close> returns a scorecard.
\<close>

theorem scores_in_range:
  assumes "analyze_property_data strptime today data = Inr (Some a)"
  shows "0 \<le> score_value (liquidity_risk (scorecard a))
       \<and> score_value (liquidity_risk (scorecard a)) \<le> 100
       \<and> 0 \<le> score_value (family_growth_potential (scorecard a))
       \<and> score_value (family_growth_potential (scorecard a)) \<le> 100"
proof -
  from assms obtain x avg where
    "score_value (liquidity_risk (scorecard a)) = py_int (py_max 0 (py_min 100 x))"
    "growth_value avg = Inr (score_value (family_growth_potential (scorecard a)))"
    by (rule analyze_property_data_Some) blast
  then show ?thesis
    using py_int_clamp_range[of x] growth_value_range[of avg] by simp
qed

theorem scores_in_range_witness:
  "analyze_property_data strptime_ymd example_today example_payload = Inr (Some example_analysis)
   \<and> score_value (liquidity_risk (scorecard example_analysis)) = 59
   \<and> score_value (family_growth_potential (scorecard example_analysis)) = 62
   \<and> 0 \<le> score_value (liquidity_risk (scorecard example_analysis))
   \<and> score_value (liquidity_risk (scorecard example_analysis)) \<le> 100
   \<and> 0 \<le> score_value (family_growth_potential (scorecard example_analysis))
   \<and> score_value (family_growth_potential (scorecard example_analysis)) \<le> 100"
  using scores_in_range[OF example_run] example_run
  by (simp add: example_analysis_def)





text \<open>
  C4. The claim: for every non-empty \<open>results\<close> sequence the reported average price is
  the sum of the \<open>price\<close> values of exactly the records where \<open>price\<close> is present and not
  null, divided by their number and rounded to the nearest integer, and 0 when there is
  no such record; a price of 0 counts, a missing or null price does not. It fails where
  the quotient is not a double: \<open>sum(sale_prices) / len(sale_prices)\<close> is a \<open>float\<close>, and for
  the single price 9007199254740993, an integer that is its own mean, the average
  reported is 9007199254740992.
\<close>

theorem large_price_average:
  "\<exists>a. analyze_property_data strptime_ymd example_today
          (JObj [(''results'', JArr [JObj [(''price'', JInt 9007199254740993)]])]) = Inr (Some a)
      \<and> avg_sale_price (summary a) = 9007199254740992
      \<and> spec_average
           (map of_int (List.map_filter spec_price [JObj [(''price'', JInt 9007199254740993)]]))
          = 9007199254740993
      \<and> \<not> nearest_integer (avg_sale_price (summary a)) 9007199254740993"
proof -
  have "fl 9007199254740993 = 9007199254740992"
    using fl_roundI[of 1 9007199254740993 4503599627370496] by (simp add: py_round_def)
  with to_double_small[of 9007199254740993]
  have d: "to_double 9007199254740993 = Finite 9007199254740992"
    by simp
  have "py_round 9007199254740992 = 9007199254740992"
    using py_round_of_int[of 9007199254740992] by simp
  then show ?thesis
    by (simp add: analyze_property_data_def py_len_def mean_or_zero_def py_sum_def d
        growth_value_zero spec_average_def map_filter_Cons spec_price_JObj nearest_integer_def)
qed

text \<open>
  C4, amended. For every non-empty \<open>results\<close> sequence whose prices, where present and
  not null, are integers with a sum below \<open>2\<^sup>5\<^sup>2\<close> in magnitude, the reported average price
  is the sum of the prices of exactly the records where \<open>price\<close> is present and not null,
  divided by their number and rounded to the nearest integer (a tie to the even one),
  and 0 when there is no such record. A price of 0 is present and counts; a missing or
  null price does not.
\<close>

theorem avg_price_formula:
  assumes "analyze_property_data strptime today (JObj kvs) = Inr (Some a)"
    and "map_of kvs ''results'' = Some (JArr ps)"
    and "\<forall>p\<in>set ps. integer_price p"
    and "\<bar>sum_list (List.map_filter spec_price ps)\<bar> < 2 ^ 52"
  shows "(filter price_present ps = [] \<longrightarrow> avg_sale_price (summary a) = 0)
       \<and> (filter price_present ps \<noteq> []
            \<longrightarrow> nearest_integer (avg_sale_price (summary a))
                  (spec_average (map of_int (List.map_filter spec_price ps))))
       \<and> length (List.map_filter spec_price ps) = length (filter price_present ps)
       \<and> price_present (JObj [(''price'', JInt 0)])
       \<and> spec_price (JObj [(''price'', JInt 0)]) = Some 0
       \<and> \<not> price_present (JObj [(''price'', JNull)])
       \<and> \<not> price_present (JObj [])"
proof -
  note facts = avg_price_ints[OF assms]
  from facts(3) have iff: "filter price_present ps = [] \<longleftrightarrow> List.map_filter spec_price ps = []"
    by (metis length_0_conv)
  have "nearest_integer (avg_sale_price (summary a))
          (spec_average (map of_int (List.map_filter spec_price ps)))"
    if "List.map_filter spec_price ps \<noteq> []"
    using facts(2)[OF that] nearest_integer_py_round by simp
  with facts(1,3) iff show ?thesis
    by (simp add: price_present_def spec_price_JObj)
qed

theorem avg_price_formula_witness:
  "analyze_property_data strptime_ymd example_today mixed_payload = Inr (Some mixed_analysis)
   \<and> list_all integer_price mixed_results
   \<and> List.map_filter spec_price mixed_results = [450000, 520000, 520003]
   \<and> length (filter price_present mixed_results) = 3
   \<and> spec_average (map of_int [450000, 520000, 520003]) = 1490003 / 3
   \<and> avg_sale_price (summary mixed_analysis) = 496668
   \<and> nearest_integer (avg_sale_price (summary mixed_analysis)) (1490003 / 3)
   \<and> \<not> nearest_integer 496667 (1490003 / 3)"
proof -
  have r: "map_of [(''results'', JArr mixed_results)] ''results'' = Some (JArr mixed_results)"
    by simp
  have ip: "\<forall>p\<in>set mixed_results. integer_price p"
    using mixed_clean clean_record_parts by blast
  have bound: "\<bar>sum_list (List.map_filter spec_price mixed_results)\<bar> < 2 ^ 52"
    by (simp add: mixed_prices)
  have avg: "spec_average [450000, 520000, 520003] = 1490003 / 3"
    by (simp add: spec_average_def)
  have n: "length (filter price_present mixed_results) = 3"
    by (simp add: mixed_results_def price_present_def)
  then have ne: "filter price_present mixed_results \<noteq> []"
    by auto
  from avg_price_formula[OF mixed_run[unfolded mixed_payload_def] r ip bound] ne
  have "nearest_integer (avg_sale_price (summary mixed_analysis)) (1490003 / 3)"
    by (simp add: mixed_prices avg)
  moreover have "avg_sale_price (summary mixed_analysis) = 496668"
    by (simp add: mixed_analysis_def)
  moreover have "\<not> nearest_integer 496667 (1490003 / 3)"
    by (simp add: nearest_integer_def)
  ultimately show ?thesis
    using mixed_run ip mixed_prices avg n by (simp add: list_all_iff)
qed

text \<open>
  C5. For every non-empty \<open>results\<close> sequence, the reported average of the days on
  market is computed from exactly the records whose \<open>listing_date\<close> parses as
  \<open>YYYY-MM-DD\<close>, as the average of \<open>(today - listing_date).days\<close> rounded to the nearest
  integer, and is 0 when no date parses; a record with a missing or unparseable date is
  skipped and causes no error. First conjunct: on every list of mappings, whatever their
  \<open>listing_date\<close> fields hold, the loop over the dates raises nothing and collects the day
  counts of exactly the dates that parse. Second conjunct: the average reported in a
  scorecard is their exact mean rounded to the nearest integer, a tie to the even one.
\<close>

theorem avg_days_on_market_formula:
  assumes "strptime [] = None"
  shows "((\<forall>p\<in>set ps. is_dict p)
            \<longrightarrow> dom_list strptime today ps
                  = Inr (List.map_filter (spec_days_on_market strptime today) ps))
       \<and> (analyze_property_data strptime today (JObj kvs) = Inr (Some a)
            \<longrightarrow> map_of kvs ''results'' = Some (JArr ps)
            \<longrightarrow> (List.map_filter (spec_days_on_market strptime today) ps = []
                    \<longrightarrow> avg_days_on_market (summary a) = 0)
              \<and> (List.map_filter (spec_days_on_market strptime today) ps \<noteq> []
                    \<longrightarrow> nearest_integer (avg_days_on_market (summary a))
                          (spec_average
                             (map of_int
                                (List.map_filter (spec_days_on_market strptime today) ps)))))"
proof -
  have 1: "dom_list strptime today ps
        = Inr (List.map_filter (spec_days_on_market strptime today) ps)"
    if "\<forall>p\<in>set ps. is_dict p"
    using that assms by (rule dom_list_dicts)
  have 2: "(List.map_filter (spec_days_on_market strptime today) ps = []
              \<longrightarrow> avg_days_on_market (summary a) = 0)
         \<and> (List.map_filter (spec_days_on_market strptime today) ps \<noteq> []
              \<longrightarrow> nearest_integer (avg_days_on_market (summary a))
                    (spec_average
                       (map of_int (List.map_filter (spec_days_on_market strptime today) ps))))"
    if "analyze_property_data strptime today (JObj kvs) = Inr (Some a)"
      and "map_of kvs ''results'' = Some (JArr ps)"
    using avg_dom_days[OF that assms] nearest_integer_py_round by simp
  from 1 2 show ?thesis
    by blast
qed

theorem avg_days_on_market_formula_witness:
  "strptime_ymd [] = None
   \<and> list_all is_dict mixed_results
   \<and> List.map_filter (spec_days_on_market strptime_ymd example_today) mixed_results = [30, 64, 67]
   \<and> dom_list strptime_ymd example_today mixed_results = Inr [30, 64, 67]
   \<and> analyze_property_data strptime_ymd example_today mixed_payload = Inr (Some mixed_analysis)
   \<and> spec_average (map of_int [30, 64, 67]) = 161 / 3
   \<and> avg_days_on_market (summary mixed_analysis) = 54
   \<and> nearest_integer (avg_days_on_market (summary mixed_analysis)) (161 / 3)
   \<and> \<not> nearest_integer 53 (161 / 3)"
proof -
  have r: "map_of [(''results'', JArr mixed_results)] ''results'' = Some (JArr mixed_results)"
    by simp
  have dicts: "\<forall>p\<in>set mixed_results. is_dict p"
    using mixed_clean clean_record_parts by blast
  have avg: "spec_average [30, 64, 67] = 161 / 3"
    by (simp add: spec_average_def)
  note inst = avg_days_on_market_formula[where strptime = strptime_ymd and ps = mixed_results
      and today = example_today and kvs = "[(''results'', JArr mixed_results)]"
      and a = mixed_analysis, OF strptime_ymd_empty]
  from inst dicts have "dom_list strptime_ymd example_today mixed_results = Inr [30, 64, 67]"
    by (simp add: mixed_days)
  moreover from inst mixed_run r
  have "nearest_integer (avg_days_on_market (summary mixed_analysis)) (161 / 3)"
    by (simp add: mixed_payload_def mixed_days avg)
  moreover have "avg_days_on_market (summary mixed_analysis) = 54"
    by (simp add: mixed_analysis_def)
  moreover have "\<not> nearest_integer 53 (161 / 3)"
    by (simp add: nearest_integer_def)
  ultimately show ?thesis
    using strptime_ymd_empty dicts mixed_days mixed_run avg by (simp add: list_all_iff)
qed






text \<open>
  C7. For every payload whose \<open>results\<close> key is absent or maps to an empty sequence the
  analyzer returns \<open>None\<close>, and the endpoint, having received that payload in a response
  that \<open>raise_for_status\<close> lets through, answers with status 404 and the body
  \<open>{"error": "No property data found for <name>. Please try a different suburb."}\<close>.
\<close>

theorem no_data_reply:
  assumes "map_of kvs ''results'' = None \<or> map_of kvs ''results'' = Some (JArr [])"
  shows "analyze_property_data strptime today (JObj kvs) = Inr None
       \<and> (suburb_name \<noteq> []
            \<longrightarrow> requests_get (requests_get_call suburb_name) = Inr r
            \<longrightarrow> \<not> (400 \<le> status_code r \<and> status_code r < 600)
            \<longrightarrow> json_body r = Some (JObj kvs)
            \<longrightarrow> analyze_suburb strptime today requests_get (Some suburb_name)
                  = ((ErrorBody (''No property data found for '' @ suburb_name
                                   @ ''. Please try a different suburb.''), 404),
                     [requests_get_call suburb_name]))"
proof -
  from assms have none: "analyze_property_data strptime today (JObj kvs) = Inr None"
    by (auto simp: analyze_property_data_def py_len_def)
  then show ?thesis
    by (simp add: analyze_suburb_def try_block_def raise_for_status_def response_json_def)
qed

theorem no_data_reply_witness:
  "(map_of [(''results'', JArr [])] ''results'' = None
      \<or> map_of [(''results'', JArr [])] ''results'' = Some (JArr []))
   \<and> analyze_property_data strptime_ymd example_today (JObj [(''results'', JArr [])]) = Inr None
   \<and> analyze_property_data strptime_ymd example_today (JObj []) = Inr None
   \<and> analyze_suburb strptime_ymd example_today
        (\<lambda>call. Inr \<lparr>status_code = 200, json_body = Some (JObj [(''results'', JArr [])])\<rparr>)
        (Some ''Nowhere'')
       = ((ErrorBody ''No property data found for Nowhere. Please try a different suburb.'', 404),
          [requests_get_call ''Nowhere''])"
proof -
  have h: "map_of [(''results'', JArr [])] ''results'' = None
      \<or> map_of [(''results'', JArr [])] ''results'' = Some (JArr [])"
    by simp
  have h': "map_of ([] :: (string \<times> json) list) ''results'' = None
      \<or> map_of ([] :: (string \<times> json) list) ''results'' = Some (JArr [])"
    by simp
  from no_data_reply[OF h, of strptime_ymd example_today "''Nowhere''"
      "\<lambda>call. Inr \<lparr>status_code = 200, json_body = Some (JObj [(''results'', JArr [])])\<rparr>"
      "\<lparr>status_code = 200, json_body = Some (JObj [(''results'', JArr [])])\<rparr>"]
    no_data_reply[OF h', of strptime_ymd example_today] h
  show ?thesis
    by simp
qed

text \<open>
  C8. For every non-empty \<open>results\<close> sequence of length N, \<open>raw_properties\<close> is the
  first min(5, N) records of the input, in the same order and unchanged.
\<close>

theorem raw_properties_prefix:
  assumes "analyze_property_data strptime today (JObj kvs) = Inr (Some a)"
    and "map_of kvs ''results'' = Some (JArr ps)"
  shows "raw_properties a = take 5 ps
       \<and> length (raw_properties a) = min 5 (length ps)
       \<and> (\<forall>i < min 5 (length ps). raw_properties a ! i = ps ! i)"
proof -
  from assms(1) obtain kvs' ps' where
    "JObj kvs = JObj kvs'" "map_of kvs' ''results'' = Some (JArr ps')"
    and raw: "raw_properties a = take 5 ps'"
    by (rule analyze_property_data_Some) blast
  with assms(2) have "raw_properties a = take 5 ps" by simp
  then show ?thesis
    by (simp add: min.commute)
qed

theorem raw_properties_prefix_witness:
  "analyze_property_data strptime_ymd example_today example_payload = Inr (Some example_analysis)
   \<and> length example_results = 6
   \<and> raw_properties example_analysis = take 5 example_results
   \<and> length (raw_properties example_analysis) = 5
   \<and> raw_properties example_analysis ! 4 = JObj []"
proof -
  have r: "map_of [(''results'', JArr example_results)] ''results'' = Some (JArr example_results)"
    by simp
  from raw_properties_prefix[OF example_run[unfolded example_payload_def] r] example_run
  show ?thesis
    by (simp add: example_results_def)
qed

text \<open>
  C9. The claim: any failure during fetch or parse that is neither an upstream HTTP
  error status nor a network failure, in particular a 2xx response whose body is not
  valid JSON, is answered with status 500 and the body
  \<open>{"error": "An unexpected server error occurred during analysis."}\<close>. The code departs
  from it on the body that is not valid JSON: \<open>response.json()\<close> raises the library's
  \<open>JSONDecodeError\<close>, a \<open>RequestException\<close>, and the second \<open>except\<close> clause, written
  for a connection that failed, answers a response that did arrive with status 503 and
  \<open>"Could not connect to the external Microburbs API."\<close>.
\<close>

theorem invalid_json_body_reply:
  "fst (analyze_suburb strptime_ymd example_today
          (\<lambda>call. Inr \<lparr>status_code = 200, json_body = None\<rparr>) (Some ''Sydney''))
     = (ErrorBody ''Could not connect to the external Microburbs API.'', 503)
   \<and> fst (analyze_suburb strptime_ymd example_today
          (\<lambda>call. Inr \<lparr>status_code = 200, json_body = None\<rparr>) (Some ''Sydney''))
     \<noteq> (ErrorBody ''An unexpected server error occurred during analysis.'', 500)"
  by (simp add: analyze_suburb_def try_block_def raise_for_status_def response_json_def
      except_clauses_def)

text \<open>
  What does reach the third \<open>except\<close> clause: any exception raised in the \<open>try\<close> block
  that is not a \<open>RequestException\<close> of the \<open>requests\<close> library, in particular any error
  raised while a parsed payload is analyzed, is answered with status 500 and the body
  \<open>{"error": "An unexpected server error occurred during analysis."}\<close>.
\<close>

theorem unexpected_failure_reply:
  assumes "suburb_name \<noteq> []"
  shows "(try_block strptime today requests_get suburb_name = Inl e
            \<longrightarrow> \<not> is_RequestException e
            \<longrightarrow> fst (analyze_suburb strptime today requests_get (Some suburb_name))
                  = (ErrorBody ''An unexpected server error occurred during analysis.'', 500))
       \<and> (requests_get (requests_get_call suburb_name) = Inr r
            \<longrightarrow> \<not> (400 \<le> status_code r \<and> status_code r < 600)
            \<longrightarrow> json_body r = Some raw_data
            \<longrightarrow> analyze_property_data strptime today raw_data = Inl err
            \<longrightarrow> fst (analyze_suburb strptime today requests_get (Some suburb_name))
                  = (ErrorBody ''An unexpected server error occurred during analysis.'', 500))"
proof -
  have 1: "fst (analyze_suburb strptime today requests_get (Some suburb_name))
        = (ErrorBody ''An unexpected server error occurred during analysis.'', 500)"
    if "try_block strptime today requests_get suburb_name = Inl e" "\<not> is_RequestException e"
    for e
    using analyze_suburb_Inl[OF assms that(1)] that(2)
    by (cases e) (simp_all add: except_clauses_def)
  have 2: "try_block strptime today requests_get suburb_name = Inl (PyError err)"
    if "requests_get (requests_get_call suburb_name) = Inr r"
      "\<not> (400 \<le> status_code r \<and> status_code r < 600)"
      "json_body r = Some raw_data"
      "analyze_property_data strptime today raw_data = Inl err"
    using that by (simp add: try_block_def raise_for_status_def response_json_def)
  from 1 2 show ?thesis
    by auto
qed

theorem unexpected_failure_reply_witness:
  "''Sydney'' \<noteq> []
   \<and> analyze_property_data strptime_ymd example_today (JArr []) = Inl AttributeError
   \<and> fst (analyze_suburb strptime_ymd example_today
            (\<lambda>call. Inr \<lparr>status_code = 200, json_body = Some (JArr [])\<rparr>) (Some ''Sydney''))
       = (ErrorBody ''An unexpected server error occurred during analysis.'', 500)"
proof -
  have n: "''Sydney'' \<noteq> []"
    by simp
  have e: "analyze_property_data strptime_ymd example_today (JArr []) = Inl AttributeError"
    by (simp add: analyze_property_data_def py_get_def)
  from unexpected_failure_reply[OF n, of strptime_ymd example_today
      "\<lambda>call. Inr \<lparr>status_code = 200, json_body = Some (JArr [])\<rparr>" "PyError AttributeError"
      "\<lparr>status_code = 200, json_body = Some (JArr [])\<rparr>" "JArr []" AttributeError] e
  show ?thesis
    by simp
qed

text \<open>
  C10. A request whose \<open>suburb\<close> parameter is present but empty is answered like one
  without the parameter: status 400, body \<open>{"error": "Suburb name is required."}\<close>, and
  no upstream fetch.
\<close>

theorem empty_suburb_reply:
  "analyze_suburb strptime today requests_get (Some [])
     = ((ErrorBody ''Suburb name is required.'', 400), [])
   \<and> analyze_suburb strptime today requests_get (Some [])
     = analyze_suburb strptime today requests_get None"
  by (simp add: analyze_suburb_def)

theorem empty_suburb_reply_witness:
  "analyze_suburb strptime_ymd example_today
      (\<lambda>call. Inr \<lparr>status_code = 200, json_body = Some example_payload\<rparr>) (Some [])
     = ((ErrorBody ''Suburb name is required.'', 400), [])"
  using empty_suburb_reply[of strptime_ymd example_today
      "\<lambda>call. Inr \<lparr>status_code = 200, json_body = Some example_payload\<rparr>"]
  by simp

end
